theory Spec2Isabelle
  imports Main "HOL-Library.Sublist"
begin

section \<open>The generator of create-expo-jmobile (src/index.js)\<close>

text \<open>
  The program is one asynchronous function, \<^verbatim>\<open>run\<close>: it asks six questions, derives a
  colour table, calls two external tools and then writes a tree of files whose contents
  are template literals. The model follows the source top to bottom.

  A JavaScript string is a sequence of UTF-16 code units; the model uses
  \<^typ>\<open>string\<close>, whose characters are bytes. The templates are ASCII, and the two
  tests the source makes on characters, in \<^verbatim>\<open>validate\<close> and in the scheme, tell
  ASCII letters, digits, the hyphen and the underscore from every other character.
\<close>

subsection \<open>Strings\<close>

text \<open>\<^verbatim>\<open>String.prototype.includes\<close>: the needle occurs somewhere in the string.\<close>

fun str_includes :: "string \<Rightarrow> string \<Rightarrow> bool" where
  "str_includes [] needle = (needle = [])"
| "str_includes (c # cs) needle = (prefix needle (c # cs) \<or> str_includes cs needle)"

text \<open>\<^verbatim>\<open>Array.prototype.join\<close> on strings.\<close>

fun join :: "string \<Rightarrow> string list \<Rightarrow> string" where
  "join sep [] = []"
| "join sep [x] = x"
| "join sep (x # y # ys) = x @ sep @ join sep (y # ys)"

text \<open>
  A template literal, written as the list of its source lines: the text between the
  backquotes is these lines with a line feed between them (so a literal that opens with a
  line break has the empty string as its first line).
\<close>

definition template :: "string list \<Rightarrow> string" where
  "template ls = join [CHR 10] ls"

text \<open>\<^verbatim>\<open>s.split("\n")\<close>, used to read a rendered file line by line.\<close>

fun split_lines :: "string \<Rightarrow> string list" where
  "split_lines [] = [[]]"
| "split_lines (c # cs) =
     (if c = CHR 10 then [] # split_lines cs
      else (case split_lines cs of [] \<Rightarrow> [[c]] | l # ls \<Rightarrow> (c # l) # ls))"

text \<open>A character class range \<^verbatim>\<open>lo-hi\<close> of a regular expression, by character code.\<close>

definition in_range :: "char \<Rightarrow> char \<Rightarrow> char \<Rightarrow> bool" where
  "in_range lo hi c = ((of_char lo :: nat) \<le> of_char c \<and> (of_char c :: nat) \<le> of_char hi)"

text \<open>
  \<^verbatim>\<open>toLowerCase\<close> on ASCII text: the letters A to Z move to a to z, every other
  character stays. The source applies it to the chosen font and to the app name, which
  are ASCII: the font is one of five fixed values and the app name has passed
  \<^verbatim>\<open>validate\<close>.
\<close>

definition toLowerCase_char :: "char \<Rightarrow> char" where
  "toLowerCase_char c =
     (if in_range CHR ''A'' CHR ''Z'' c then char_of (of_char c + (32::nat)) else c)"

definition toLowerCase :: "string \<Rightarrow> string" where
  "toLowerCase s = map toLowerCase_char s"

subsection \<open>The questions and the response\<close>

text \<open>
  The \<^verbatim>\<open>validate\<close> callback of the app-name question (lines 17 to 25) returns
  \<^verbatim>\<open>true\<close> or a message.
\<close>

datatype validation = Valid | Message string

text \<open>The class \<^verbatim>\<open>[a-zA-Z0-9-_]\<close> of the regular expression on line 21.\<close>

definition name_class :: "char \<Rightarrow> bool" where
  "name_class c =
     (in_range CHR ''a'' CHR ''z'' c \<or> in_range CHR ''A'' CHR ''Z'' c \<or>
      in_range CHR ''0'' CHR ''9'' c \<or> c = CHR ''-'' \<or> c = CHR ''_'')"

text \<open>\<^verbatim>\<open>/^[a-zA-Z0-9-_]+$/.test(value)\<close>: one or more characters, all of the class.\<close>

definition name_regex_test :: "string \<Rightarrow> bool" where
  "name_regex_test v = (v \<noteq> [] \<and> list_all name_class v)"

definition validate :: "string \<Rightarrow> validation" where
  "validate v =
     (if str_includes v '' '' then
        Message ''App name cannot contain spaces. Use hyphens or underscores instead.''
      else if \<not> name_regex_test v then
        Message ''App name can only contain letters, numbers, hyphens, and underscores.''
      else Valid)"

text \<open>The five choices of the font question (lines 31 to 37) and their values.\<close>

datatype font_choice = Inter | Poppins | Montserrat | Roboto | Lato

fun font_value :: "font_choice \<Rightarrow> string" where
  "font_value Inter = ''Inter''"
| "font_value Poppins = ''Poppins''"
| "font_value Montserrat = ''Montserrat''"
| "font_value Roboto = ''Roboto''"
| "font_value Lato = ''Lato''"

text \<open>
  The object the questions resolve to, destructured on line 66. A question that is not
  asked leaves its field \<^verbatim>\<open>undefined\<close>: \<^const>\<open>None\<close> below. Only the last question
  can be skipped.
\<close>

record response =
  appName :: string
  font :: string
  primaryColor :: string
  secondaryColor :: string
  needsAuth :: bool
  needsBottomTabs :: "bool option"

text \<open>Truthiness of a boolean that may be \<^verbatim>\<open>undefined\<close>, as \<^verbatim>\<open>if (x)\<close> and \<^verbatim>\<open>x ? a : b\<close> read it.\<close>

fun truthy :: "bool option \<Rightarrow> bool" where
  "truthy None = False"
| "truthy (Some b) = b"

text \<open>
  The type of the last question is the function on line 59,
  \<^verbatim>\<open>(prev) => (prev ? "confirm" : null)\<close>, of the previous answer.
\<close>

datatype question_type = TextQ | SelectQ | ConfirmQ

definition needsBottomTabs_type :: "bool \<Rightarrow> question_type option" where
  "needsBottomTabs_type prev = (if prev then Some ConfirmQ else None)"

text \<open>
  What one interactive session supplies: the values handed to \<^verbatim>\<open>validate\<close> in turn
  for the app name, and one answer for each later question (the last is read only if
  the question is asked).
\<close>

record session =
  appName_values :: "string list"
  font_answer :: font_choice
  primaryColor_answer :: string
  secondaryColor_answer :: string
  needsAuth_answer :: bool
  needsBottomTabs_answer :: bool

text \<open>
  The call of \<^verbatim>\<open>prompts\<close> (lines 11 to 64). The library is the program's environment;
  the model takes from its contract that a text question is asked again until
  \<^verbatim>\<open>validate\<close> returns \<^verbatim>\<open>true\<close>, and that a question whose type evaluates to a
  falsy value is skipped and leaves no entry in the response. A session that never
  supplies an accepted name resolves to no response.
\<close>

definition prompts :: "session \<Rightarrow> response option" where
  "prompts s =
     (case find (\<lambda>v. validate v = Valid) (appName_values s) of
        None \<Rightarrow> None
      | Some n \<Rightarrow>
          Some \<lparr> appName = n,
                 font = font_value (font_answer s),
                 primaryColor = primaryColor_answer s,
                 secondaryColor = secondaryColor_answer s,
                 needsAuth = needsAuth_answer s,
                 needsBottomTabs =
                   (case needsBottomTabs_type (needsAuth_answer s) of
                      None \<Rightarrow> None
                    | Some _ \<Rightarrow> Some (needsBottomTabs_answer s)) \<rparr>)"

subsection \<open>The colour table\<close>

text \<open>\<^verbatim>\<open>a || b\<close> on strings: the empty string is falsy.\<close>

definition js_or :: "string \<Rightarrow> string \<Rightarrow> string" where
  "js_or a b = (if a \<noteq> [] then a else b)"

record theme_colors =
  primary :: string
  secondary :: string
  success :: string
  warning :: string
  error :: string
  background :: string
  surface :: string
  text_color :: string
  textSecondary :: string
  border :: string

text \<open>The object \<^verbatim>\<open>colors\<close> of lines 68 to 79 (its slot \<^verbatim>\<open>text\<close> is \<^const>\<open>text_color\<close> here).\<close>

definition colors :: "response \<Rightarrow> theme_colors" where
  "colors r =
     \<lparr> primary = js_or (primaryColor r) ''#3B82F6'',
       secondary = js_or (secondaryColor r) ''#6B7280'',
       success = ''#10B981'',
       warning = ''#F59E0B'',
       error = ''#EF4444'',
       background = ''#F9FAFB'',
       surface = ''#FFFFFF'',
       text_color = ''#111827'',
       textSecondary = ''#6B7280'',
       border = ''#E5E7EB'' \<rparr>"

subsection \<open>The scheme written to app.json\<close>

text \<open>Line 149: \<^verbatim>\<open>appName.toLowerCase().replace(/[^a-z0-9]/g, "")\<close>.\<close>

definition scheme :: "string \<Rightarrow> string" where
  "scheme name =
     filter (\<lambda>c. in_range CHR ''a'' CHR ''z'' c \<or> in_range CHR ''0'' CHR ''9'' c)
       (toLowerCase name)"

subsection \<open>The two manifests\<close>

text \<open>
  A value of \<^verbatim>\<open>JSON.parse\<close>. An object keeps its keys in insertion order, one
  entry for each key. No step reads a number, so numbers are kept as integers.
\<close>

datatype json =
    JNull
  | JBool bool
  | JNum int
  | JStr string
  | JArr "json list"
  | JObj "(string \<times> json) list"

text \<open>
  \<^verbatim>\<open>obj[k] = v\<close> on an object: an existing key keeps its place, a new key goes last.
\<close>

fun assign_key :: "string \<Rightarrow> json \<Rightarrow> (string \<times> json) list \<Rightarrow> (string \<times> json) list" where
  "assign_key k v [] = [(k, v)]"
| "assign_key k v ((k', v') # kvs) =
     (if k' = k then (k, v) # kvs else (k', v') # assign_key k v kvs)"

text \<open>Reading a chain of keys from nested objects; \<^const>\<open>None\<close> is \<^verbatim>\<open>undefined\<close>.\<close>

fun json_at :: "string list \<Rightarrow> json \<Rightarrow> json option" where
  "json_at [] j = Some j"
| "json_at (k # ks) (JObj kvs) =
     (case map_of kvs k of None \<Rightarrow> None | Some j \<Rightarrow> json_at ks j)"
| "json_at (k # ks) _ = None"

text \<open>What stops a run: every way the source can throw or exit that the model follows.\<close>

datatype js_error =
    ExecaError string
  | ProcessExit nat
  | ENOENT string
  | SyntaxError string
  | TypeError

text \<open>
  A manifest as the run finds it: \<^verbatim>\<open>fs.readFileSync\<close> throws on a missing file and
  \<^verbatim>\<open>JSON.parse\<close> on text that is not JSON.
\<close>

datatype manifest = Missing | Unparsable | Parses json

fun read_json :: "string \<Rightarrow> manifest \<Rightarrow> js_error + json" where
  "read_json p Missing = Inl (ENOENT p)"
| "read_json p Unparsable = Inl (SyntaxError p)"
| "read_json p (Parses j) = Inr j"

text \<open>
  Line 149, \<^verbatim>\<open>appJson.expo.scheme = ...\<close>, on the parsed app.json. Reading
  \<^verbatim>\<open>expo\<close> from \<^verbatim>\<open>null\<close> throws; from an array or a primitive it gives
  \<^verbatim>\<open>undefined\<close>, as for an object without the key, and assigning a property of
  \<^verbatim>\<open>undefined\<close> or \<^verbatim>\<open>null\<close> throws. The file is an ES module, so the code is strict
  and assigning a property of a primitive throws too. When \<^verbatim>\<open>expo\<close> is an array the
  property is set on the array, and \<^verbatim>\<open>JSON.stringify\<close> on line 150 leaves it out. The
  nested object is changed in place, so the result holds the new \<^verbatim>\<open>expo\<close> where the
  old one stood.
\<close>

fun set_scheme :: "json \<Rightarrow> string \<Rightarrow> js_error + json" where
  "set_scheme (JObj kvs) s =
     (case map_of kvs ''expo'' of
        None \<Rightarrow> Inl TypeError
      | Some (JObj es) \<Rightarrow>
          Inr (JObj (assign_key ''expo'' (JObj (assign_key ''scheme'' (JStr s) es)) kvs))
      | Some (JArr xs) \<Rightarrow> Inr (JObj kvs)
      | Some _ \<Rightarrow> Inl TypeError)"
| "set_scheme _ s = Inl TypeError"

text \<open>Line 1202, \<^verbatim>\<open>packageJson.main = "./app/_layout.tsx"\<close>, on the parsed package.json.\<close>

fun set_main :: "json \<Rightarrow> js_error + json" where
  "set_main (JObj kvs) = Inr (JObj (assign_key ''main'' (JStr ''./app/_layout.tsx'') kvs))"
| "set_main (JArr xs) = Inr (JArr xs)"
| "set_main _ = Inl TypeError"

subsection \<open>Effects\<close>

text \<open>
  What a file holds after \<^verbatim>\<open>fs.writeFileSync\<close>: the text of a template, or
  \<^verbatim>\<open>JSON.stringify(j, null, 2)\<close> of a value \<open>j\<close>, kept as the value.
\<close>

datatype content = Text string | Json json

text \<open>
  The calls the run makes, in order. Every path of the source is
  \<^verbatim>\<open>path.join(appPath, ...)\<close>; an effect holds the part below \<^verbatim>\<open>appPath\<close>, the
  project's root. \<^verbatim>\<open>Chdir\<close> holds the app name: the directory entered is
  \<^verbatim>\<open>path.join(process.cwd(), appName)\<close>.
\<close>

datatype effect =
    Execa string "string list"
  | Chdir string
  | EnsureDir string
  | WriteFile string content

text \<open>
  \<^verbatim>\<open>path.join\<close> of the segments below \<^verbatim>\<open>appPath\<close>. No segment of the source is
  empty or holds a dot segment, so joining with a slash is all it does.
\<close>

definition path_join :: "string list \<Rightarrow> string" where
  "path_join segs = join ''/'' segs"

text \<open>What the run cannot see before it acts: the two tools, the directory, the manifests.\<close>

record environment =
  scaffold_ok :: bool
  chdir_ok :: bool
  install_ok :: bool
  app_json :: manifest
  package_json :: manifest

subsection \<open>The templates\<close>

text \<open>
  Each template literal of the source, line by line. An escaped backquote or dollar sign
  of the source is the character itself here, and a doubled backslash of the source is
  one backslash, written \<^term>\<open>[CHR 0x5C]\<close>.
\<close>

text \<open>Lines 115 to 143, the text of \<^verbatim>\<open>tailwind.config.js\<close>.\<close>

definition tailwindConfig :: \<open>response \<Rightarrow> string\<close> where
  \<open>tailwindConfig r = template
   ['''',
    ''/** @type {import('tailwindcss').Config} */'',
    ''module.exports = {'',
    ''  content: ['',
    ''    "./app/**/*.{js,jsx,ts,tsx}",'',
    ''    "./components/**/*.{js,jsx,ts,tsx}",'',
    ''    "./features/**/*.{js,jsx,ts,tsx}"'',
    ''  ],'',
    ''  theme: {'',
    ''    extend: {'',
    ''      fontFamily: {'',
    ''        sans: ["'' @ font r @ ''"],'',
    ''      },'',
    ''      colors: {'',
    ''        primary: "'' @ primary (colors r) @ ''",'',
    ''        secondary: "'' @ secondary (colors r) @ ''",'',
    ''        success: "'' @ success (colors r) @ ''",'',
    ''        warning: "'' @ warning (colors r) @ ''",'',
    ''        error: "'' @ error (colors r) @ ''",'',
    ''        background: "'' @ background (colors r) @ ''",'',
    ''        surface: "'' @ surface (colors r) @ ''",'',
    ''        text: "'' @ text_color (colors r) @ ''",'',
    ''        textSecondary: "'' @ textSecondary (colors r) @ ''",'',
    ''        border: "'' @ border (colors r) @ ''",'',
    ''      },'',
    ''    },'',
    ''  },'',
    ''  plugins: [],'',
    ''}'']\<close>

text \<open>Lines 157 to 189, the text of \<^verbatim>\<open>constants/theme.ts\<close>.\<close>

definition themeFile :: \<open>response \<Rightarrow> string\<close> where
  \<open>themeFile r = template
   ['''',
    ''export const theme = {'',
    ''  colors: {'',
    ''    primary: "'' @ primary (colors r) @ ''",'',
    ''    secondary: "'' @ secondary (colors r) @ ''",'',
    ''    success: "'' @ success (colors r) @ ''",'',
    ''    warning: "'' @ warning (colors r) @ ''",'',
    ''    error: "'' @ error (colors r) @ ''",'',
    ''    background: "'' @ background (colors r) @ ''",'',
    ''    surface: "'' @ surface (colors r) @ ''",'',
    ''    text: "'' @ text_color (colors r) @ ''",'',
    ''    textSecondary: "'' @ textSecondary (colors r) @ ''",'',
    ''    border: "'' @ border (colors r) @ ''",'',
    ''  },'',
    ''  fontFamily: "'' @ font r @ ''",'',
    ''  spacing: {'',
    ''    xs: 4,'',
    ''    sm: 8,'',
    ''    md: 16,'',
    ''    lg: 24,'',
    ''    xl: 32,'',
    ''    xxl: 48,'',
    ''  },'',
    ''  borderRadius: {'',
    ''    sm: 8,'',
    ''    md: 12,'',
    ''    lg: 16,'',
    ''    xl: 24,'',
    ''  },'',
    ''};'',
    '''',
    ''export type Theme = typeof theme;'',
    '''']\<close>

text \<open>Lines 193 to 273, the text of \<^verbatim>\<open>components/ui/Text.tsx\<close>.\<close>

definition textComponent :: string where
  \<open>textComponent = template
   ['''',
    ''import React from "react";'',
    ''import { Text as RNText, TextProps as RNTextProps } from "react-native";'',
    ''import { theme } from "../constants/theme";'',
    '''',
    ''interface TextProps extends RNTextProps {'',
    ''  variant?: "heading" | "subheading" | "body" | "caption" | "label";'',
    ''  color?: "primary" | "secondary" | "text" | "textSecondary" | "error" | "success" | "warning";'',
    ''  weight?: "normal" | "medium" | "semibold" | "bold";'',
    ''}'',
    '''',
    ''const Text: React.FC<TextProps> = ({ '',
    ''  variant = "body", '',
    ''  color = "text", '',
    ''  weight = "normal",'',
    ''  style,'',
    ''  className = "",'',
    ''  ...props '',
    ''}) => {'',
    ''  const getVariantStyle = () => {'',
    ''    switch (variant) {'',
    ''      case "heading":'',
    ''        return "text-3xl font-bold";'',
    ''      case "subheading":'',
    ''        return "text-xl font-semibold";'',
    ''      case "body":'',
    ''        return "text-base";'',
    ''      case "caption":'',
    ''        return "text-sm";'',
    ''      case "label":'',
    ''        return "text-sm font-medium";'',
    ''      default:'',
    ''        return "text-base";'',
    ''    }'',
    ''  };'',
    '''',
    ''  const getColorStyle = () => {'',
    ''    switch (color) {'',
    ''      case "primary":'',
    ''        return "text-primary";'',
    ''      case "secondary":'',
    ''        return "text-secondary";'',
    ''      case "error":'',
    ''        return "text-error";'',
    ''      case "success":'',
    ''        return "text-success";'',
    ''      case "warning":'',
    ''        return "text-warning";'',
    ''      case "textSecondary":'',
    ''        return "text-textSecondary";'',
    ''      default:'',
    ''        return "text-text";'',
    ''    }'',
    ''  };'',
    '''',
    ''  const getWeightStyle = () => {'',
    ''    switch (weight) {'',
    ''      case "medium":'',
    ''        return "font-medium";'',
    ''      case "semibold":'',
    ''        return "font-semibold";'',
    ''      case "bold":'',
    ''        return "font-bold";'',
    ''      default:'',
    ''        return "font-normal";'',
    ''    }'',
    ''  };'',
    '''',
    ''  const combinedClassName = `${getVariantStyle()} ${getColorStyle()} ${getWeightStyle()} ${className}`;'',
    '''',
    ''  return ('',
    ''    <RNText'',
    ''      style={[{ fontFamily: theme.fontFamily }, style]}'',
    ''      className={combinedClassName}'',
    ''      {...props}'',
    ''    />'',
    ''  );'',
    ''};'',
    '''',
    ''export default Text;'',
    '''']\<close>

text \<open>Lines 276 to 376, the text of \<^verbatim>\<open>components/ui/Button.tsx\<close>.\<close>

definition buttonComponent :: string where
  \<open>buttonComponent = template
   ['''',
    ''import React from "react";'',
    ''import { TouchableOpacity, TouchableOpacityProps, ActivityIndicator } from "react-native";'',
    ''import Text from "./Text";'',
    '''',
    ''interface ButtonProps extends TouchableOpacityProps {'',
    ''  title: string;'',
    ''  variant?: "primary" | "secondary" | "outline" | "ghost" | "danger";'',
    ''  size?: "sm" | "md" | "lg";'',
    ''  loading?: boolean;'',
    ''  fullWidth?: boolean;'',
    ''}'',
    '''',
    ''const Button: React.FC<ButtonProps> = ({'',
    ''  title,'',
    ''  variant = "primary",'',
    ''  size = "md",'',
    ''  loading = false,'',
    ''  fullWidth = false,'',
    ''  disabled,'',
    ''  className = "",'',
    ''  ...props'',
    ''}) => {'',
    ''  const getVariantStyle = () => {'',
    ''    switch (variant) {'',
    ''      case "primary":'',
    ''        return "bg-primary";'',
    ''      case "secondary":'',
    ''        return "bg-secondary";'',
    ''      case "outline":'',
    ''        return "bg-transparent border-2 border-primary";'',
    ''      case "ghost":'',
    ''        return "bg-transparent";'',
    ''      case "danger":'',
    ''        return "bg-error";'',
    ''      default:'',
    ''        return "bg-primary";'',
    ''    }'',
    ''  };'',
    '''',
    ''  const getSizeStyle = () => {'',
    ''    switch (size) {'',
    ''      case "sm":'',
    ''        return "px-3 py-2 rounded-lg";'',
    ''      case "md":'',
    ''        return "px-4 py-3 rounded-xl";'',
    ''      case "lg":'',
    ''        return "px-6 py-4 rounded-2xl";'',
    ''      default:'',
    ''        return "px-4 py-3 rounded-xl";'',
    ''    }'',
    ''  };'',
    '''',
    ''  const getTextColor = () => {'',
    ''    switch (variant) {'',
    ''      case "outline":'',
    ''      case "ghost":'',
    ''        return "primary";'',
    ''      default:'',
    ''        return "surface";'',
    ''    }'',
    ''  };'',
    '''',
    ''  const getTextSize = () => {'',
    ''    switch (size) {'',
    ''      case "sm":'',
    ''        return "caption";'',
    ''      case "md":'',
    ''        return "body";'',
    ''      case "lg":'',
    ''        return "subheading";'',
    ''      default:'',
    ''        return "body";'',
    ''    }'',
    ''  };'',
    '''',
    ''  const isDisabled = disabled || loading;'',
    ''  const widthStyle = fullWidth ? "w-full" : "";'',
    ''  const opacityStyle = isDisabled ? "opacity-50" : "";'',
    ''  '',
    ''  const combinedClassName = `${getVariantStyle()} ${getSizeStyle()} ${widthStyle} ${opacityStyle} ${className}`;'',
    '''',
    ''  return ('',
    ''    <TouchableOpacity'',
    ''      disabled={isDisabled}'',
    ''      className={combinedClassName}'',
    ''      {...props}'',
    ''    >'',
    ''      {loading ? ('',
    ''        <ActivityIndicator color={variant === "outline" || variant === "ghost" ? colors.primary : colors.surface} />'',
    ''      ) : ('',
    ''        <Text variant={getTextSize()} color={getTextColor()} weight="semibold" className="text-center">'',
    ''          {title}'',
    ''        </Text>'',
    ''      )}'',
    ''    </TouchableOpacity>'',
    ''  );'',
    ''};'',
    '''',
    ''export default Button;'',
    '''']\<close>

text \<open>Lines 379 to 461, the text of \<^verbatim>\<open>components/ui/TextField.tsx\<close>.\<close>

definition textFieldComponent :: string where
  \<open>textFieldComponent = template
   ['''',
    ''import React from "react";'',
    ''import { Controller, Control, FieldError } from "react-hook-form";'',
    ''import { TextInput, View, TextInputProps } from "react-native";'',
    ''import Text from "./Text";'',
    '''',
    ''interface TextFieldProps extends TextInputProps {'',
    ''  control: Control<any>;'',
    ''  name: string;'',
    ''  label?: string;'',
    ''  placeholder?: string;'',
    ''  error?: FieldError;'',
    ''  variant?: "default" | "filled" | "outline";'',
    ''  size?: "sm" | "md" | "lg";'',
    ''}'',
    '''',
    ''const TextField: React.FC<TextFieldProps> = ({'',
    ''  control,'',
    ''  name,'',
    ''  label,'',
    ''  placeholder,'',
    ''  variant = "outline",'',
    ''  size = "md",'',
    ''  className = "",'',
    ''  ...props'',
    ''}) => {'',
    ''  const getVariantStyle = () => {'',
    ''    switch (variant) {'',
    ''      case "filled":'',
    ''        return "bg-background border border-border";'',
    ''      case "outline":'',
    ''        return "bg-surface border-2 border-border focus:border-primary";'',
    ''      default:'',
    ''        return "bg-surface border border-border";'',
    ''    }'',
    ''  };'',
    '''',
    ''  const getSizeStyle = () => {'',
    ''    switch (size) {'',
    ''      case "sm":'',
    ''        return "px-3 py-2 rounded-lg text-sm";'',
    ''      case "md":'',
    ''        return "px-4 py-3 rounded-xl text-base";'',
    ''      case "lg":'',
    ''        return "px-5 py-4 rounded-2xl text-lg";'',
    ''      default:'',
    ''        return "px-4 py-3 rounded-xl text-base";'',
    ''    }'',
    ''  };'',
    '''',
    ''  return ('',
    ''    <Controller'',
    ''      control={control}'',
    ''      name={name}'',
    ''      render={({ field: { onChange, value, onBlur }, fieldState: { error } }) => ('',
    ''        <View className="mb-4">'',
    ''          {label && ('',
    ''            <Text variant="label" color="text" className="mb-2">'',
    ''              {label}'',
    ''            </Text>'',
    ''          )}'',
    ''          <TextInput'',
    ''            value={value}'',
    ''            onChangeText={onChange}'',
    ''            onBlur={onBlur}'',
    ''            placeholder={placeholder}'',
    ''            placeholderTextColor="#9CA3AF"'',
    ''            className={`${getVariantStyle()} ${getSizeStyle()} ${error ? "border-error" : ""} ${className}`}'',
    ''            {...props}'',
    ''          />'',
    ''          {error && ('',
    ''            <Text variant="caption" color="error" className="mt-1">'',
    ''              {error.message}'',
    ''            </Text>'',
    ''          )}'',
    ''        </View>'',
    ''      )}'',
    ''    />'',
    ''  );'',
    ''};'',
    '''',
    ''export default TextField;'',
    '''']\<close>

text \<open>Lines 465 to 492, the text of \<^verbatim>\<open>components/ui/SafeAreaLayout.tsx\<close>.\<close>

definition safeAreaComponent :: string where
  \<open>safeAreaComponent = template
   ['''',
    ''import React from "react";'',
    ''import { SafeAreaView, StatusBar } from "react-native";'',
    ''import { SafeAreaProvider } from "react-native-safe-area-context";'',
    '''',
    ''interface SafeAreaLayoutProps {'',
    ''  children: React.ReactNode;'',
    ''  className?: string;'',
    ''  statusBarStyle?: "light" | "dark";'',
    ''}'',
    '''',
    ''const SafeAreaLayout: React.FC<SafeAreaLayoutProps> = ({'',
    ''  children,'',
    ''  className = "",'',
    ''  statusBarStyle = "dark",'',
    ''}) => {'',
    ''  return ('',
    ''    <SafeAreaProvider>'',
    ''      <SafeAreaView className={`flex-1 bg-background ${className}`}>'',
    ''        <StatusBar barStyle={`${statusBarStyle}-content`} backgroundColor="transparent" translucent />'',
    ''        {children}'',
    ''      </SafeAreaView>'',
    ''    </SafeAreaProvider>'',
    ''  );'',
    ''};'',
    '''',
    ''export default SafeAreaLayout;'',
    '''']\<close>

text \<open>Lines 495 to 529, the text of \<^verbatim>\<open>components/ui/FullScreenLayout.tsx\<close>.\<close>

definition fullScreenComponent :: string where
  \<open>fullScreenComponent = template
   ['''',
    ''import React from "react";'',
    ''import { View } from "react-native";'',
    ''import SafeAreaLayout from "./SafeAreaLayout";'',
    '''',
    ''interface FullScreenLayoutProps {'',
    ''  children: React.ReactNode;'',
    ''  className?: string;'',
    ''  statusBarStyle?: "light" | "dark";'',
    ''  safeArea?: boolean;'',
    ''}'',
    '''',
    ''const FullScreenLayout: React.FC<FullScreenLayoutProps> = ({'',
    ''  children,'',
    ''  className = "",'',
    ''  statusBarStyle = "dark",'',
    ''  safeArea = true,'',
    ''}) => {'',
    ''  if (safeArea) {'',
    ''    return ('',
    ''      <SafeAreaLayout className={className} statusBarStyle={statusBarStyle}>'',
    ''        {children}'',
    ''      </SafeAreaLayout>'',
    ''    );'',
    ''  }'',
    '''',
    ''  return ('',
    ''    <View className={`flex-1 bg-background ${className}`}>'',
    ''      {children}'',
    ''    </View>'',
    ''  );'',
    ''};'',
    '''',
    ''export default FullScreenLayout;'',
    '''']\<close>

text \<open>Lines 533 to 539, the text of \<^verbatim>\<open>components/ui/index.ts\<close>.\<close>

definition componentsIndex :: string where
  \<open>componentsIndex = template
   ['''',
    ''export { default as Text } from "./Text";'',
    ''export { default as Button } from "./Button";'',
    ''export { default as TextField } from "./TextField";'',
    ''export { default as SafeAreaLayout } from "./SafeAreaLayout";'',
    ''export { default as FullScreenLayout } from "./FullScreenLayout";'',
    '''']\<close>

text \<open>Lines 545 to 634, the text of \<^verbatim>\<open>app/login.tsx\<close>.\<close>

definition loginPage :: string where
  \<open>loginPage = template
   ['''',
    ''import React from "react";'',
    ''import { View } from "react-native";'',
    ''import { useForm } from "react-hook-form";'',
    ''import { Link, router } from "expo-router";'',
    ''import { FullScreenLayout, Text, TextField, Button } from "../../components/ui";'',
    '''',
    ''interface LoginForm {'',
    ''  email: string;'',
    ''  password: string;'',
    ''}'',
    '''',
    ''export default function LoginPage() {'',
    ''  const { control, handleSubmit, formState: { errors } } = useForm<LoginForm>();'',
    '''',
    ''  const onSubmit = (data: LoginForm) => {'',
    ''    console.log("Login data:", data);'',
    ''    // TODO: Implement authentication logic'',
    ''    router.replace("/(tabs)");'',
    ''  };'',
    '''',
    ''  return ('',
    ''    <FullScreenLayout>'',
    ''      <View className="flex-1 justify-center px-6">'',
    ''        <View className="mb-8">'',
    ''          <Text variant="heading" className="text-center mb-2">'',
    ''            Welcome Back'',
    ''          </Text>'',
    ''          <Text variant="body" color="textSecondary" className="text-center">'',
    ''            Sign in to your account'',
    ''          </Text>'',
    ''        </View>'',
    '''',
    ''        <View className="mb-6">'',
    ''          <TextField'',
    ''            control={control}'',
    ''            name="email"'',
    ''            label="Email"'',
    ''            placeholder="Enter your email"'',
    ''            keyboardType="email-address"'',
    ''            autoCapitalize="none"'',
    ''            rules={{ '',
    ''              required: "Email is required",'',
    ''              pattern: {'',
    ''                value: /^[A-Z0-9._%+-]+@[A-Z0-9.-]+'' @ [CHR 0x5C] @ ''.[A-Z]{2,}$/i,'',
    ''                message: "Invalid email address"'',
    ''              }'',
    ''            }}'',
    ''          />'',
    ''          '',
    ''          <TextField'',
    ''            control={control}'',
    ''            name="password"'',
    ''            label="Password"'',
    ''            placeholder="Enter your password"'',
    ''            secureTextEntry'',
    ''            rules={{ '',
    ''              required: "Password is required",'',
    ''              minLength: {'',
    ''                value: 6,'',
    ''                message: "Password must be at least 6 characters"'',
    ''              }'',
    ''            }}'',
    ''          />'',
    ''        </View>'',
    '''',
    ''        <Button'',
    ''          title="Sign In"'',
    ''          onPress={handleSubmit(onSubmit)}'',
    ''          variant="primary"'',
    ''          size="lg"'',
    ''          fullWidth'',
    ''          className="mb-4"'',
    ''        />'',
    '''',
    ''        <View className="flex-row justify-center">'',
    ''          <Text variant="body" color="textSecondary">'',
    ''            Don't have an account?{" "}'',
    ''          </Text>'',
    ''          <Link href="/signup" asChild>'',
    ''            <Text variant="body" color="primary" weight="medium">'',
    ''              Sign up'',
    ''            </Text>'',
    ''          </Link>'',
    ''        </View>'',
    ''      </View>'',
    ''    </FullScreenLayout>'',
    ''  );'',
    ''}'',
    '''']\<close>

text \<open>Lines 637 to 749, the text of \<^verbatim>\<open>app/signup.tsx\<close>.\<close>

definition signupPage :: string where
  \<open>signupPage = template
   ['''',
    ''import React from "react";'',
    ''import { View } from "react-native";'',
    ''import { useForm } from "react-hook-form";'',
    ''import { Link, router } from "expo-router";'',
    ''import { FullScreenLayout, Text, TextField, Button } from "../../components/ui";'',
    '''',
    ''interface SignupForm {'',
    ''  name: string;'',
    ''  email: string;'',
    ''  password: string;'',
    ''  confirmPassword: string;'',
    ''}'',
    '''',
    ''export default function SignupPage() {'',
    ''  const { control, handleSubmit, watch, formState: { errors } } = useForm<SignupForm>();'',
    ''  const password = watch("password");'',
    '''',
    ''  const onSubmit = (data: SignupForm) => {'',
    ''    console.log("Signup data:", data);'',
    ''    // TODO: Implement registration logic'',
    ''    router.replace("/(tabs)");'',
    ''  };'',
    '''',
    ''  return ('',
    ''    <FullScreenLayout>'',
    ''      <View className="flex-1 justify-center px-6">'',
    ''        <View className="mb-8">'',
    ''          <Text variant="heading" className="text-center mb-2">'',
    ''            Create Account'',
    ''          </Text>'',
    ''          <Text variant="body" color="textSecondary" className="text-center">'',
    ''            Join us today'',
    ''          </Text>'',
    ''        </View>'',
    '''',
    ''        <View className="mb-6">'',
    ''          <TextField'',
    ''            control={control}'',
    ''            name="name"'',
    ''            label="Full Name"'',
    ''            placeholder="Enter your full name"'',
    ''            rules={{ required: "Name is required" }}'',
    ''          />'',
    ''          '',
    ''          <TextField'',
    ''            control={control}'',
    ''            name="email"'',
    ''            label="Email"'',
    ''            placeholder="Enter your email"'',
    ''            keyboardType="email-address"'',
    ''            autoCapitalize="none"'',
    ''            rules={{ '',
    ''              required: "Email is required",'',
    ''              pattern: {'',
    ''                value: /^[A-Z0-9._%+-]+@[A-Z0-9.-]+'' @ [CHR 0x5C] @ ''.[A-Z]{2,}$/i,'',
    ''                message: "Invalid email address"'',
    ''              }'',
    ''            }}'',
    ''          />'',
    ''          '',
    ''          <TextField'',
    ''            control={control}'',
    ''            name="password"'',
    ''            label="Password"'',
    ''            placeholder="Enter your password"'',
    ''            secureTextEntry'',
    ''            rules={{ '',
    ''              required: "Password is required",'',
    ''              minLength: {'',
    ''                value: 6,'',
    ''                message: "Password must be at least 6 characters"'',
    ''              }'',
    ''            }}'',
    ''          />'',
    '''',
    ''          <TextField'',
    ''            control={control}'',
    ''            name="confirmPassword"'',
    ''            label="Confirm Password"'',
    ''            placeholder="Confirm your password"'',
    ''            secureTextEntry'',
    ''            rules={{ '',
    ''              required: "Please confirm your password",'',
    ''              validate: (value) => value === password || "Passwords do not match"'',
    ''            }}'',
    ''          />'',
    ''        </View>'',
    '''',
    ''        <Button'',
    ''          title="Create Account"'',
    ''          onPress={handleSubmit(onSubmit)}'',
    ''          variant="primary"'',
    ''          size="lg"'',
    ''          fullWidth'',
    ''          className="mb-4"'',
    ''        />'',
    '''',
    ''        <View className="flex-row justify-center">'',
    ''          <Text variant="body" color="textSecondary">'',
    ''            Already have an account?{" "}'',
    ''          </Text>'',
    ''          <Link href="/login" asChild>'',
    ''            <Text variant="body" color="primary" weight="medium">'',
    ''              Sign in'',
    ''            </Text>'',
    ''          </Link>'',
    ''        </View>'',
    ''      </View>'',
    ''    </FullScreenLayout>'',
    ''  );'',
    ''}'',
    '''']\<close>

text \<open>Lines 756 to 814, the text of \<^verbatim>\<open>app/(tabs)/_layout.tsx\<close>.\<close>

definition tabsLayout :: string where
  \<open>tabsLayout = template
   ['''',
    ''import React from "react";'',
    ''import { Tabs } from "expo-router";'',
    ''import { Ionicons } from "@expo/vector-icons";'',
    ''import { theme } from "../../constants/theme";'',
    '''',
    ''export default function TabsLayout() {'',
    ''  return ('',
    ''    <Tabs'',
    ''      screenOptions={{'',
    ''        tabBarActiveTintColor: theme.colors.primary,'',
    ''        tabBarInactiveTintColor: theme.colors.textSecondary,'',
    ''        tabBarStyle: {'',
    ''          backgroundColor: theme.colors.surface,'',
    ''          borderTopColor: theme.colors.border,'',
    ''        },'',
    ''        headerShown: false,'',
    ''      }}'',
    ''    >'',
    ''      <Tabs.Screen'',
    ''        name="index"'',
    ''        options={{'',
    ''          title: "Home",'',
    ''          tabBarIcon: ({ color, size }) => ('',
    ''            <Ionicons name="home" size={size} color={color} />'',
    ''          ),'',
    ''        }}'',
    ''      />'',
    ''      <Tabs.Screen'',
    ''        name="explore"'',
    ''        options={{'',
    ''          title: "Explore",'',
    ''          tabBarIcon: ({ color, size }) => ('',
    ''            <Ionicons name="search" size={size} color={color} />'',
    ''          ),'',
    ''        }}'',
    ''      />'',
    ''      <Tabs.Screen'',
    ''        name="notifications"'',
    ''        options={{'',
    ''          title: "Notifications",'',
    ''          tabBarIcon: ({ color, size }) => ('',
    ''            <Ionicons name="notifications" size={size} color={color} />'',
    ''          ),'',
    ''        }}'',
    ''      />'',
    ''      <Tabs.Screen'',
    ''        name="profile"'',
    ''        options={{'',
    ''          title: "Profile",'',
    ''          tabBarIcon: ({ color, size }) => ('',
    ''            <Ionicons name="person" size={size} color={color} />'',
    ''          ),'',
    ''        }}'',
    ''      />'',
    ''    </Tabs>'',
    ''  );'',
    ''}'',
    '''']\<close>

text \<open>Lines 819 to 867, the text of \<^verbatim>\<open>app/(tabs)/index.tsx\<close>.\<close>

definition homeScreen :: \<open>response \<Rightarrow> string\<close> where
  \<open>homeScreen r = template
   ['''',
    ''import React from "react";'',
    ''import { View, ScrollView } from "react-native";'',
    ''import { FullScreenLayout, Text, Button } from "../../../components/ui";'',
    '''',
    ''export default function HomeScreen() {'',
    ''  return ('',
    ''    <FullScreenLayout>'',
    ''      <ScrollView className="flex-1">'',
    ''        <View className="px-6 pt-6">'',
    ''          <Text variant="heading" className="mb-2">'',
    ''            Welcome to '' @ appName r @ ''!'',
    ''          </Text>'',
    ''          <Text variant="body" color="textSecondary" className="mb-6">'',
    ''            Your modern Expo app is ready to go.'',
    ''          </Text>'',
    '''',
    ''          <View className="space-y-4">'',
    ''            <Button'',
    ''              title="Get Started"'',
    ''              variant="primary"'',
    ''              size="lg"'',
    ''              fullWidth'',
    ''              onPress={() => console.log("Get Started pressed")}'',
    ''            />'',
    ''            '',
    ''            <Button'',
    ''              title="Learn More"'',
    ''              variant="outline"'',
    ''              size="md"'',
    ''              fullWidth'',
    ''              onPress={() => console.log("Learn More pressed")}'',
    ''            />'',
    ''          </View>'',
    '''',
    ''          <View className="mt-8 p-4 bg-surface rounded-2xl border border-border">'',
    ''            <Text variant="subheading" className="mb-2">'',
    ''              Quick Actions'',
    ''            </Text>'',
    ''            <Text variant="body" color="textSecondary">'',
    ''              This is where you can add your main app functionality.'',
    ''            </Text>'',
    ''          </View>'',
    ''        </View>'',
    ''      </ScrollView>'',
    ''    </FullScreenLayout>'',
    ''  );'',
    ''}'',
    '''']\<close>

text \<open>Lines 870 to 907, the text of \<^verbatim>\<open>app/(tabs)/explore.tsx\<close>.\<close>

definition exploreScreen :: string where
  \<open>exploreScreen = template
   ['''',
    ''import React from "react";'',
    ''import { View, ScrollView } from "react-native";'',
    ''import { FullScreenLayout, Text, Button } from "../../../components/ui";'',
    '''',
    ''export default function ExploreScreen() {'',
    ''  return ('',
    ''    <FullScreenLayout>'',
    ''      <ScrollView className="flex-1">'',
    ''        <View className="px-6 pt-6">'',
    ''          <Text variant="heading" className="mb-6">'',
    ''            Explore'',
    ''          </Text>'',
    '''',
    ''          <View className="space-y-4">'',
    ''            {[1, 2, 3, 4].map((item) => ('',
    ''              <View key={item} className="p-4 bg-surface rounded-2xl border border-border">'',
    ''                <Text variant="subheading" className="mb-2">'',
    ''                  Feature {item}'',
    ''                </Text>'',
    ''                <Text variant="body" color="textSecondary" className="mb-3">'',
    ''                  Discover amazing content and features in this section.'',
    ''                </Text>'',
    ''                <Button'',
    ''                  title="Explore"'',
    ''                  variant="ghost"'',
    ''                  size="sm"'',
    ''                  onPress={() => console.log(`Explore item ${item}`)}'',
    ''                />'',
    ''              </View>'',
    ''            ))}'',
    ''          </View>'',
    ''        </View>'',
    ''      </ScrollView>'',
    ''    </FullScreenLayout>'',
    ''  );'',
    ''}'',
    '''']\<close>

text \<open>Lines 910 to 952, the text of \<^verbatim>\<open>app/(tabs)/notifications.tsx\<close>.\<close>

definition notificationsScreen :: \<open>response \<Rightarrow> string\<close> where
  \<open>notificationsScreen r = template
   ['''',
    ''import React from "react";'',
    ''import { View, ScrollView } from "react-native";'',
    ''import { FullScreenLayout, Text } from "../../../components/ui";'',
    '''',
    ''export default function NotificationsScreen() {'',
    ''  const notifications = ['',
    ''    { id: 1, title: "Welcome!", message: "Thanks for using '' @ appName r @ ''", time: "2 min ago" },'',
    ''    { id: 2, title: "New Feature", message: "Check out our latest update", time: "1 hour ago" },'',
    ''    { id: 3, title: "Reminder", message: "Don't forget to complete your profile", time: "2 hours ago" },'',
    ''  ];'',
    '''',
    ''  return ('',
    ''    <FullScreenLayout>'',
    ''      <ScrollView className="flex-1">'',
    ''        <View className="px-6 pt-6">'',
    ''          <Text variant="heading" className="mb-6">'',
    ''            Notifications'',
    ''          </Text>'',
    '''',
    ''          <View className="space-y-3">'',
    ''            {notifications.map((notification) => ('',
    ''              <View key={notification.id} className="p-4 bg-surface rounded-2xl border border-border">'',
    ''                <View className="flex-row justify-between items-start mb-2">'',
    ''                  <Text variant="label" className="flex-1">'',
    ''                    {notification.title}'',
    ''                  </Text>'',
    ''                  <Text variant="caption" color="textSecondary">'',
    ''                    {notification.time}'',
    ''                  </Text>'',
    ''                </View>'',
    ''                <Text variant="body" color="textSecondary">'',
    ''                  {notification.message}'',
    ''                </Text>'',
    ''              </View>'',
    ''            ))}'',
    ''          </View>'',
    ''        </View>'',
    ''      </ScrollView>'',
    ''    </FullScreenLayout>'',
    ''  );'',
    ''}'',
    '''']\<close>

text \<open>Lines 955 to 1031, the text of \<^verbatim>\<open>app/(tabs)/profile.tsx\<close>.\<close>

definition profileScreen :: string where
  \<open>profileScreen = template
   ['''',
    ''import React from "react";'',
    ''import { View, ScrollView } from "react-native";'',
    ''import { FullScreenLayout, Text, Button } from "../../../components/ui";'',
    '''',
    ''export default function ProfileScreen() {'',
    ''  const userInfo = {'',
    ''    name: "John Doe",'',
    ''    email: "john.doe@example.com",'',
    ''    joinDate: "January 2025",'',
    ''  };'',
    '''',
    ''  return ('',
    ''    <FullScreenLayout>'',
    ''      <ScrollView className="flex-1">'',
    ''        <View className="px-6 pt-6">'',
    ''          <Text variant="heading" className="mb-6">'',
    ''            Profile'',
    ''          </Text>'',
    '''',
    ''          <View className="p-6 bg-surface rounded-2xl border border-border mb-6">'',
    ''            <View className="w-20 h-20 bg-primary rounded-full mb-4 items-center justify-center">'',
    ''              <Text variant="heading" color="surface">'',
    ''                {userInfo.name.split(" ").map(n => n[0]).join("")}'',
    ''              </Text>'',
    ''            </View>'',
    ''            '',
    ''            <Text variant="subheading" className="mb-1">'',
    ''              {userInfo.name}'',
    ''            </Text>'',
    ''            <Text variant="body" color="textSecondary" className="mb-1">'',
    ''              {userInfo.email}'',
    ''            </Text>'',
    ''            <Text variant="caption" color="textSecondary">'',
    ''              Member since {userInfo.joinDate}'',
    ''            </Text>'',
    ''          </View>'',
    '''',
    ''          <View className="space-y-4">'',
    ''            <View className="p-4 bg-surface rounded-2xl border border-border">'',
    ''              <Text variant="label" className="mb-2">Settings</Text>'',
    ''              <View className="space-y-3">'',
    ''                <Button'',
    ''                  title="Edit Profile"'',
    ''                  variant="ghost"'',
    ''                  size="sm"'',
    ''                  onPress={() => console.log("Edit profile")}'',
    ''                />'',
    ''                <Button'',
    ''                  title="Preferences"'',
    ''                  variant="ghost"'',
    ''                  size="sm"'',
    ''                  onPress={() => console.log("Preferences")}'',
    ''                />'',
    ''                <Button'',
    ''                  title="Privacy"'',
    ''                  variant="ghost"'',
    ''                  size="sm"'',
    ''                  onPress={() => console.log("Privacy")}'',
    ''                />'',
    ''              </View>'',
    ''            </View>'',
    '''',
    ''            <Button'',
    ''              title="Sign Out"'',
    ''              variant="danger"'',
    ''              size="md"'',
    ''              fullWidth'',
    ''              onPress={() => console.log("Sign out")}'',
    ''            />'',
    ''          </View>'',
    ''        </View>'',
    ''      </ScrollView>'',
    ''    </FullScreenLayout>'',
    ''  );'',
    ''}'',
    '''']\<close>

text \<open>Lines 1035 to 1091, the text of \<^verbatim>\<open>app/index.tsx\<close>.\<close>

definition simpleHomeScreen :: \<open>response \<Rightarrow> string\<close> where
  \<open>simpleHomeScreen r = template
   ['''',
    ''import React from "react";'',
    ''import { View, ScrollView } from "react-native";'',
    ''import { FullScreenLayout, Text, Button } from "../../components/ui";'',
    '''',
    ''export default function HomeScreen() {'',
    ''  return ('',
    ''    <FullScreenLayout>'',
    ''      <ScrollView className="flex-1">'',
    ''        <View className="px-6 pt-6">'',
    ''          <Text variant="heading" className="mb-2">'',
    ''            Welcome to '' @ appName r @ ''!'',
    ''          </Text>'',
    ''          <Text variant="body" color="textSecondary" className="mb-6">'',
    ''            Your modern Expo app is ready to go.'',
    ''          </Text>'',
    '''',
    ''          <View className="space-y-4">'',
    ''            <Button'',
    ''              title="Get Started"'',
    ''              variant="primary"'',
    ''              size="lg"'',
    ''              fullWidth'',
    ''              onPress={() => console.log("Get Started pressed")}'',
    ''            />'',
    ''            '',
    ''            <Button'',
    ''              title="Learn More"'',
    ''              variant="outline"'',
    ''              size="md"'',
    ''              fullWidth'',
    ''              onPress={() => console.log("Learn More pressed")}'',
    ''            />'',
    '''',
    ''            <Button'',
    ''              title="Contact Support"'',
    ''              variant="ghost"'',
    ''              size="md"'',
    ''              fullWidth'',
    ''              onPress={() => console.log("Contact Support pressed")}'',
    ''            />'',
    ''          </View>'',
    '''',
    ''          <View className="mt-8 p-4 bg-surface rounded-2xl border border-border">'',
    ''            <Text variant="subheading" className="mb-2">'',
    ''              Getting Started'',
    ''            </Text>'',
    ''            <Text variant="body" color="textSecondary">'',
    ''              This is your main app screen. You can start building your features here.'',
    ''            </Text>'',
    ''          </View>'',
    ''        </View>'',
    ''      </ScrollView>'',
    ''    </FullScreenLayout>'',
    ''  );'',
    ''}'',
    '''']\<close>

text \<open>Lines 1139 to 1143, the text of \<^verbatim>\<open>global.css\<close>.\<close>

definition globalCSS :: string where
  \<open>globalCSS = template
   ['''',
    ''@tailwind base;'',
    ''@tailwind components;'',
    ''@tailwind utilities;'',
    '''']\<close>

text \<open>Lines 1147 to 1154, the text of \<^verbatim>\<open>metro.config.js\<close>.\<close>

definition metroConfig :: string where
  \<open>metroConfig = template
   ['''',
    ''const { getDefaultConfig } = require("expo/metro-config");'',
    ''const { withNativeWind } = require("nativewind/metro");'',
    '''',
    ''const config = getDefaultConfig(__dirname);'',
    '''',
    ''module.exports = withNativeWind(config, { input: "./global.css" });'',
    '''']\<close>

text \<open>Lines 1158 to 1164, the text of \<^verbatim>\<open>hooks/useTheme.ts\<close>.\<close>

definition useThemeHook :: string where
  \<open>useThemeHook = template
   ['''',
    ''import { theme } from "../constants/theme";'',
    '''',
    ''export const useTheme = () => {'',
    ''  return theme;'',
    ''};'',
    '''']\<close>

text \<open>Lines 1168 to 1197, the text of \<^verbatim>\<open>utils/validation.ts\<close>.\<close>

definition validationUtils :: string where
  \<open>validationUtils = template
   ['''',
    ''export const validationRules = {'',
    ''  email: {'',
    ''    required: "Email is required",'',
    ''    pattern: {'',
    ''      value: /^[A-Z0-9._%+-]+@[A-Z0-9.-]+'' @ [CHR 0x5C] @ ''.[A-Z]{2,}$/i,'',
    ''      message: "Invalid email address"'',
    ''    }'',
    ''  },'',
    ''  password: {'',
    ''    required: "Password is required",'',
    ''    minLength: {'',
    ''      value: 6,'',
    ''      message: "Password must be at least 6 characters"'',
    ''    }'',
    ''  },'',
    ''  name: {'',
    ''    required: "Name is required",'',
    ''    minLength: {'',
    ''      value: 2,'',
    ''      message: "Name must be at least 2 characters"'',
    ''    }'',
    ''  }'',
    ''};'',
    '''',
    ''export const formatters = {'',
    ''  capitalize: (str: string) => str.charAt(0).toUpperCase() + str.slice(1).toLowerCase(),'',
    ''  truncate: (str: string, length: number) => str.length > length ? str.substring(0, length) + "..." : str,'',
    ''};'',
    '''']\<close>

text \<open>
  Lines 1123 to 1131: the block interpolated into the root layout, three nested template
  literals chosen by \<^verbatim>\<open>needsAuth ? ... : needsBottomTabs ? ... : ...\<close>.
\<close>

definition stackScreens :: \<open>response \<Rightarrow> string\<close> where
  \<open>stackScreens r =
   (if needsAuth r then template
      ['''',
       ''      <Stack.Screen name="login" />'',
       ''      <Stack.Screen name="signup" />'',
       ''      <Stack.Screen name="(tabs)" options={{ headerShown: false }} />'',
       ''      '']
    else if truthy (needsBottomTabs r) then template
      ['''',
       ''      <Stack.Screen name="(tabs)" options={{ headerShown: false }} />'',
       ''      '']
    else template
      ['''',
       ''      <Stack.Screen name="index" />'',
       ''      ''])\<close>

text \<open>Lines 1096 to 1135, the text of \<^verbatim>\<open>app/_layout.tsx\<close>.\<close>

definition mainLayout :: \<open>response \<Rightarrow> string\<close> where
  \<open>mainLayout r = template
   ['''',
    ''import React, { useEffect } from "react";'',
    ''import { Stack } from "expo-router";'',
    ''import { useFonts } from "expo-font";'',
    ''import { SplashScreen } from "expo-splash-screen";'',
    ''import "../global.css";'',
    '''',
    ''// Keep the splash screen visible while we fetch resources'',
    ''SplashScreen.preventAutoHideAsync();'',
    '''',
    ''export default function RootLayout() {'',
    ''  const [loaded, error] = useFonts({'',
    ''    "'' @ font r @ ''": require("expo-google-fonts/'' @ toLowerCase (font r) @ ''").'' @ font r @ '','',
    ''  });'',
    '''',
    ''  useEffect(() => {'',
    ''    if (loaded || error) {'',
    ''      SplashScreen.hideAsync();'',
    ''    }'',
    ''  }, [loaded, error]);'',
    '''',
    ''  if (!loaded && !error) {'',
    ''    return null;'',
    ''  }'',
    '''',
    ''  return ('',
    ''    <Stack screenOptions={{ headerShown: false }}>'',
    ''      '' @ stackScreens r,
    ''    </Stack>'',
    ''  );'',
    ''}'',
    '''']\<close>

text \<open>The content a path holds after the run: the last write to it.\<close>

definition file_content :: "(string \<times> content) list \<Rightarrow> string \<Rightarrow> content option" where
  "file_content files p = map_of (rev files) p"

text \<open>The entry under a chain of keys of a manifest the run wrote.\<close>

definition written_json :: "(string \<times> content) list \<Rightarrow> string \<Rightarrow> string list \<Rightarrow> json option" where
  "written_json files p keys =
     (case file_content files p of Some (Json j) \<Rightarrow> json_at keys j | _ \<Rightarrow> None)"

subsection \<open>The specification's wording\<close>

text \<open>
  The specification gives the app-name pattern as \<^verbatim>\<open>^[A-Za-z0-9_-]+$\<close>: a non-empty
  name all of whose characters are letters, digits, underscore or hyphen.
\<close>

definition spec_name_alphabet :: string where
  "spec_name_alphabet = ''ABCDEFGHIJKLMNOPQRSTUVWXYZabcdefghijklmnopqrstuvwxyz0123456789_-''"

definition matches_name_pattern :: "string \<Rightarrow> bool" where
  "matches_name_pattern v = (v \<noteq> [] \<and> list_all (\<lambda>c. c \<in> set spec_name_alphabet) v)"

text \<open>
  The specification's scheme: the app name lowercased, with every character that is
  not a letter or a digit removed.
\<close>

definition spec_lowercase_char :: "char \<Rightarrow> char" where
  "spec_lowercase_char c =
     (case map_of (zip ''ABCDEFGHIJKLMNOPQRSTUVWXYZ'' ''abcdefghijklmnopqrstuvwxyz'') c of
        Some l \<Rightarrow> l
      | None \<Rightarrow> c)"

definition spec_alphanumeric :: "char \<Rightarrow> bool" where
  "spec_alphanumeric c =
     (c \<in> set ''ABCDEFGHIJKLMNOPQRSTUVWXYZabcdefghijklmnopqrstuvwxyz0123456789'')"

definition spec_scheme :: "string \<Rightarrow> string" where
  "spec_scheme name = filter spec_alphanumeric (map spec_lowercase_char name)"

subsection \<open>Sample inputs\<close>

text \<open>The four combinations of the two switches, on the app name of the scenarios.\<close>

definition demo :: "bool \<Rightarrow> bool option \<Rightarrow> response" where
  "demo auth tabs =
     \<lparr> appName = ''demo'', font = ''Inter'', primaryColor = '''', secondaryColor = '''',
       needsAuth = auth, needsBottomTabs = tabs \<rparr>"

text \<open>A response that differs from the above in every field but the two switches.\<close>

definition other :: "bool \<Rightarrow> bool option \<Rightarrow> response" where
  "other auth tabs =
     \<lparr> appName = ''My-Shop_2'', font = ''Roboto'', primaryColor = ''#000000'',
       secondaryColor = ''#FF00FF'', needsAuth = auth, needsBottomTabs = tabs \<rparr>"

text \<open>A session that answers no to the authentication question.\<close>

definition session_without_auth :: session where
  "session_without_auth =
     \<lparr> appName_values = [''my app'', ''demo''], font_answer = Inter,
       primaryColor_answer = ''#000000'', secondaryColor_answer = '''',
       needsAuth_answer = False, needsBottomTabs_answer = True \<rparr>"


subsection \<open>The run\<close>

text \<open>Lines 99 to 110: the packages handed to \<^verbatim>\<open>npm install\<close>.\<close>

definition dependencies :: "response \<Rightarrow> string list" where
  "dependencies r =
     [''nativewind'',
      ''tailwindcss'',
      ''react-hook-form'',
      ''expo-font'',
      ''expo-router'',
      ''expo-splash-screen'',
      ''expo-status-bar'',
      ''react-native-safe-area-context'',
      ''react-native-screens'',
      ''expo-google-fonts-'' @ toLowerCase (font r)]"

text \<open>Line 153.\<close>

definition folders :: "string list" where
  "folders = [''app'', ''components/ui'', ''features'', ''hooks'', ''utils'', ''constants'']"

text \<open>Steps 5 to 9 (lines 152 to 540): the folders, the theme and the components.\<close>

definition steps_5_to_9 :: "response \<Rightarrow> effect list" where
  "steps_5_to_9 r =
     map (\<lambda>f. EnsureDir (path_join [f])) folders @
     [WriteFile (path_join [''constants'', ''theme.ts'']) (Text (themeFile r)),
      WriteFile (path_join [''components/ui'', ''Text.tsx'']) (Text textComponent),
      WriteFile (path_join [''components/ui'', ''Button.tsx'']) (Text buttonComponent),
      WriteFile (path_join [''components/ui'', ''TextField.tsx'']) (Text textFieldComponent),
      WriteFile (path_join [''components/ui'', ''SafeAreaLayout.tsx'']) (Text safeAreaComponent),
      WriteFile (path_join [''components/ui'', ''FullScreenLayout.tsx'']) (Text fullScreenComponent),
      WriteFile (path_join [''components/ui'', ''index.ts'']) (Text componentsIndex)]"

text \<open>Step 10 (lines 543 to 751): \<^verbatim>\<open>if (needsAuth)\<close>.\<close>

definition step_10 :: "response \<Rightarrow> effect list" where
  "step_10 r =
     (if needsAuth r then
        [WriteFile (path_join [''app'', ''login.tsx'']) (Text loginPage),
         WriteFile (path_join [''app'', ''signup.tsx'']) (Text signupPage)]
      else [])"

text \<open>Step 11 (lines 754 to 1093): \<^verbatim>\<open>if (needsBottomTabs) ... else ...\<close>.\<close>

definition step_11 :: "response \<Rightarrow> effect list" where
  "step_11 r =
     (if truthy (needsBottomTabs r) then
        [EnsureDir (path_join [''app'', ''(tabs)'']),
         WriteFile (path_join [''app'', ''(tabs)'', ''_layout.tsx'']) (Text tabsLayout),
         WriteFile (path_join [''app'', ''(tabs)'', ''index.tsx'']) (Text (homeScreen r)),
         WriteFile (path_join [''app'', ''(tabs)'', ''explore.tsx'']) (Text exploreScreen),
         WriteFile (path_join [''app'', ''(tabs)'', ''notifications.tsx''])
           (Text (notificationsScreen r)),
         WriteFile (path_join [''app'', ''(tabs)'', ''profile.tsx'']) (Text profileScreen)]
      else
        [WriteFile (path_join [''app'', ''index.tsx'']) (Text (simpleHomeScreen r))])"

text \<open>Steps 12 to 17 (lines 1095 to 1198): the root layout and the fixed files.\<close>

definition steps_12_to_17 :: "response \<Rightarrow> effect list" where
  "steps_12_to_17 r =
     [WriteFile (path_join [''app'', ''_layout.tsx'']) (Text (mainLayout r)),
      WriteFile (path_join [''global.css'']) (Text globalCSS),
      WriteFile (path_join [''metro.config.js'']) (Text metroConfig),
      WriteFile (path_join [''hooks'', ''useTheme.ts'']) (Text useThemeHook),
      WriteFile (path_join [''utils'', ''validation.ts'']) (Text validationUtils)]"

text \<open>Steps 5 to 17 together: what the run does between the two manifests.\<close>

definition steps_5_to_17 :: "response \<Rightarrow> effect list" where
  "steps_5_to_17 r = steps_5_to_9 r @ step_10 r @ step_11 r @ steps_12_to_17 r"

text \<open>
  Lines 66 to 1203, the run after the questions: the effects made, in order, and the
  error that stopped it, if one did. A rejected \<^verbatim>\<open>execa\<close> call, a failed read or
  parse of a manifest and a thrown \<^verbatim>\<open>TypeError\<close> leave \<^verbatim>\<open>run\<close> at once; a failed
  \<^verbatim>\<open>process.chdir\<close> is caught on line 92 and ends the process with code 1. Writing a
  file and making a directory are taken to succeed.
\<close>

definition generate :: "environment \<Rightarrow> response \<Rightarrow> effect list \<times> js_error option" where
  "generate env r =
     (let e1 = [Execa ''npx'' [''create-expo-app'', appName r, ''--template'', ''blank-typescript'']]
      in
      if \<not> scaffold_ok env then (e1, Some (ExecaError ''npx''))
      else
        let e2 = e1 @ [Chdir (appName r)] in
        if \<not> chdir_ok env then (e2, Some (ProcessExit 1))
        else
          let e3 = e2 @ [Execa ''npm'' (''install'' # dependencies r)] in
          if \<not> install_ok env then (e3, Some (ExecaError ''npm''))
          else
            let e4 = e3 @ [WriteFile (path_join [''tailwind.config.js'']) (Text (tailwindConfig r))]
            in
            case read_json ''app.json'' (app_json env) of
              Inl err \<Rightarrow> (e4, Some err)
            | Inr appJson \<Rightarrow>
                (case set_scheme appJson (scheme (appName r)) of
                   Inl err \<Rightarrow> (e4, Some err)
                 | Inr appJson' \<Rightarrow>
                     let e5 = e4 @ [WriteFile (path_join [''app.json'']) (Json appJson')] @
                                steps_5_to_17 r
                     in
                     (case read_json ''package.json'' (package_json env) of
                        Inl err \<Rightarrow> (e5, Some err)
                      | Inr packageJson \<Rightarrow>
                          (case set_main packageJson of
                             Inl err \<Rightarrow> (e5, Some err)
                           | Inr packageJson' \<Rightarrow>
                               (e5 @ [WriteFile (path_join [''package.json'']) (Json packageJson')],
                                None)))))"

text \<open>The whole of \<^verbatim>\<open>run\<close>: the questions, then the generation for the response.\<close>

definition run :: "environment \<Rightarrow> session \<Rightarrow> (effect list \<times> js_error option) option" where
  "run env s = map_option (generate env) (prompts s)"

subsection \<open>Reading a run\<close>

text \<open>The files a run wrote, in order, with their contents: the file tree it made.\<close>

fun written :: "effect list \<Rightarrow> (string \<times> content) list" where
  "written [] = []"
| "written (WriteFile p c # es) = (p, c) # written es"
| "written (Execa c as # es) = written es"
| "written (Chdir d # es) = written es"
| "written (EnsureDir d # es) = written es"

definition plan :: "environment \<Rightarrow> response \<Rightarrow> (string \<times> content) list" where
  "plan env r = written (fst (generate env r))"

definition plan_paths :: "environment \<Rightarrow> response \<Rightarrow> string list" where
  "plan_paths env r = map fst (plan env r)"

text \<open>A run that no error stopped.\<close>

definition completes :: "environment \<Rightarrow> response \<Rightarrow> bool" where
  "completes env r = (snd (generate env r) = None)"

text \<open>A file of the tab route group: a path below \<^verbatim>\<open>app/(tabs)\<close>.\<close>

definition tab_file :: "string \<Rightarrow> bool" where
  "tab_file p = prefix ''app/(tabs)/'' p"

text \<open>
  An environment in which both tools succeed and the scaffold left an app.json whose
  \<^verbatim>\<open>expo\<close> entry is an object and a package.json that is an object.
\<close>

fun scaffolded :: "environment \<Rightarrow> bool" where
  "scaffolded env =
     (scaffold_ok env \<and> chdir_ok env \<and> install_ok env \<and>
      (case app_json env of
         Parses (JObj kvs) \<Rightarrow> (case map_of kvs ''expo'' of Some (JObj es) \<Rightarrow> True | _ \<Rightarrow> False)
       | _ \<Rightarrow> False) \<and>
      (case package_json env of Parses (JObj ps) \<Rightarrow> True | _ \<Rightarrow> False))"

text \<open>A scaffold as \<^verbatim>\<open>create-expo-app\<close> leaves it, cut to the entries the run touches.\<close>

definition fresh_scaffold :: environment where
  "fresh_scaffold =
     \<lparr> scaffold_ok = True, chdir_ok = True, install_ok = True,
       app_json = Parses (JObj [(''expo'', JObj [(''name'', JStr ''demo''), (''slug'', JStr ''demo'')])]),
       package_json = Parses (JObj [(''name'', JStr ''demo''), (''main'', JStr ''index.ts'')]) \<rparr>"


section \<open>Properties\<close>

subsection \<open>Strings and lines\<close>

lemma str_includes_sublist: "str_includes s n \<longleftrightarrow> sublist n s"
  by (induction s) (simp_all add: sublist_Cons_right)

lemma split_lines_line: "CHR 10 \<notin> set l \<Longrightarrow> split_lines (l @ CHR 10 # s) = l # split_lines s"
  by (induction l) (auto split: list.splits)

lemma split_lines_single: "CHR 10 \<notin> set l \<Longrightarrow> split_lines l = [l]"
  by (induction l) (auto split: list.splits)

lemma split_lines_template:
  "ls \<noteq> [] \<Longrightarrow> list_all (\<lambda>l. CHR 10 \<notin> set l) ls \<Longrightarrow> split_lines (template ls) = ls"
  unfolding template_def
proof (induction ls)
  case Nil then show ?case by simp
next
  case (Cons x xs)
  then show ?case by (cases xs) (simp_all add: split_lines_single split_lines_line)
qed

lemma sublist_across_newline:
  assumes "c \<notin> set n"
  shows "sublist n (a @ c # b) \<longleftrightarrow> sublist n a \<or> sublist n b"
proof
  assume "sublist n (a @ c # b)"
  then consider "sublist n a" | "sublist n (c # b)"
    | n1 n2 where "n = n1 @ n2" "suffix n1 a" "prefix n2 (c # b)"
    by (auto simp add: sublist_append)
  then show "sublist n a \<or> sublist n b"
  proof cases
    case 1 then show ?thesis by simp
  next
    case 2
    have "\<not> prefix n (c # b) \<or> n = []" using assms by (cases n) auto
    with 2 show ?thesis by (auto simp add: sublist_Cons_right)
  next
    case 3
    have "n2 = []" using 3(1,3) assms by (cases n2) auto
    with 3 show ?thesis by (simp add: suffix_imp_sublist)
  qed
next
  assume "sublist n a \<or> sublist n b"
  then show "sublist n (a @ c # b)"
    by (auto simp add: sublist_append sublist_Cons_right)
qed

lemma includes_template:
  assumes "CHR 10 \<notin> set n" "ls \<noteq> []"
  shows "str_includes (template ls) n \<longleftrightarrow> list_ex (\<lambda>l. str_includes l n) ls"
  using assms(2) unfolding template_def str_includes_sublist
proof (induction ls)
  case Nil then show ?case by simp
next
  case (Cons x xs)
  then show ?case using assms(1) by (cases xs) (simp_all add: sublist_across_newline)
qed

lemma append_template: "a @ template (x # xs) = template ((a @ x) # xs)"
  by (cases xs) (simp_all add: template_def)

subsection \<open>The files of a run\<close>

lemma written_append: "written (xs @ ys) = written xs @ written ys"
  by (induction xs rule: written.induct) simp_all

lemma set_scheme_isl: "isl (set_scheme j s) = isl (set_scheme j s')"
  by (cases j) (auto split: option.splits json.splits)

lemma paths_5_to_17:
  "map fst (written (steps_5_to_17 r)) =
     [''constants/theme.ts'', ''components/ui/Text.tsx'', ''components/ui/Button.tsx'',
      ''components/ui/TextField.tsx'', ''components/ui/SafeAreaLayout.tsx'',
      ''components/ui/FullScreenLayout.tsx'', ''components/ui/index.ts''] @
     (if needsAuth r then [''app/login.tsx'', ''app/signup.tsx''] else []) @
     (if truthy (needsBottomTabs r)
      then [''app/(tabs)/_layout.tsx'', ''app/(tabs)/index.tsx'', ''app/(tabs)/explore.tsx'',
            ''app/(tabs)/notifications.tsx'', ''app/(tabs)/profile.tsx'']
      else [''app/index.tsx'']) @
     [''app/_layout.tsx'', ''global.css'', ''metro.config.js'', ''hooks/useTheme.ts'',
      ''utils/validation.ts'']"
  by (simp add: steps_5_to_17_def steps_5_to_9_def step_10_def step_11_def steps_12_to_17_def
      folders_def path_join_def written_append)

lemma plan_paths_unfold:
  "plan_paths env r =
     (if scaffold_ok env \<and> chdir_ok env \<and> install_ok env then
        ''tailwind.config.js'' #
        (case read_json ''app.json'' (app_json env) of
           Inl e \<Rightarrow> []
         | Inr aj \<Rightarrow>
             if isl (set_scheme aj (scheme (appName r))) then []
             else ''app.json'' # map fst (written (steps_5_to_17 r)) @
                  (case read_json ''package.json'' (package_json env) of
                     Inl e \<Rightarrow> []
                   | Inr pj \<Rightarrow> if isl (set_main pj) then [] else [''package.json'']))
      else [])"
  by (auto simp add: plan_paths_def plan_def generate_def Let_def written_append path_join_def
      split: sum.splits)

lemma plan_paths_flags:
  "needsAuth r1 = needsAuth r2 \<Longrightarrow>
   truthy (needsBottomTabs r1) = truthy (needsBottomTabs r2) \<Longrightarrow>
   plan_paths env r1 = plan_paths env r2"
  by (simp add: plan_paths_unfold paths_5_to_17
      set_scheme_isl[of _ "scheme (appName r1)" "scheme (appName r2)"] split: sum.splits)

lemma completes_iff:
  "completes env r \<longleftrightarrow>
     scaffold_ok env \<and> chdir_ok env \<and> install_ok env \<and>
     (case read_json ''app.json'' (app_json env) of
        Inl e \<Rightarrow> False
      | Inr aj \<Rightarrow> \<not> isl (set_scheme aj (scheme (appName r)))) \<and>
     (case read_json ''package.json'' (package_json env) of
        Inl e \<Rightarrow> False
      | Inr pj \<Rightarrow> \<not> isl (set_main pj))"
  by (auto simp add: completes_def generate_def Let_def split: sum.splits)

lemma completes_paths:
  "completes env r \<Longrightarrow>
   plan_paths env r =
     ''tailwind.config.js'' # ''app.json'' # map fst (written (steps_5_to_17 r)) @ [''package.json'']"
  by (auto simp add: completes_iff plan_paths_unfold split: sum.splits)

lemma scaffolded_completes: "scaffolded env \<Longrightarrow> completes env r"
  by (auto simp add: completes_iff split: manifest.splits json.splits option.splits)

lemma login_in_paths:
  "completes env r \<Longrightarrow> ''app/login.tsx'' \<in> set (plan_paths env r) \<longleftrightarrow> needsAuth r"
  by (simp add: completes_paths paths_5_to_17)

lemma index_in_paths:
  "completes env r \<Longrightarrow>
   ''app/index.tsx'' \<in> set (plan_paths env r) \<longleftrightarrow> \<not> truthy (needsBottomTabs r)"
  by (simp add: completes_paths paths_5_to_17)

lemma written_5_to_17:
  "written (steps_5_to_17 r) =
     [(''constants/theme.ts'', Text (themeFile r)),
      (''components/ui/Text.tsx'', Text textComponent),
      (''components/ui/Button.tsx'', Text buttonComponent),
      (''components/ui/TextField.tsx'', Text textFieldComponent),
      (''components/ui/SafeAreaLayout.tsx'', Text safeAreaComponent),
      (''components/ui/FullScreenLayout.tsx'', Text fullScreenComponent),
      (''components/ui/index.ts'', Text componentsIndex)] @
     (if needsAuth r
      then [(''app/login.tsx'', Text loginPage), (''app/signup.tsx'', Text signupPage)]
      else []) @
     (if truthy (needsBottomTabs r)
      then [(''app/(tabs)/_layout.tsx'', Text tabsLayout),
            (''app/(tabs)/index.tsx'', Text (homeScreen r)),
            (''app/(tabs)/explore.tsx'', Text exploreScreen),
            (''app/(tabs)/notifications.tsx'', Text (notificationsScreen r)),
            (''app/(tabs)/profile.tsx'', Text profileScreen)]
      else [(''app/index.tsx'', Text (simpleHomeScreen r))]) @
     [(''app/_layout.tsx'', Text (mainLayout r)),
      (''global.css'', Text globalCSS),
      (''metro.config.js'', Text metroConfig),
      (''hooks/useTheme.ts'', Text useThemeHook),
      (''utils/validation.ts'', Text validationUtils)]"
  by (simp add: steps_5_to_17_def steps_5_to_9_def step_10_def step_11_def steps_12_to_17_def
      folders_def path_join_def written_append)

lemma plan_unfold:
  "completes env r \<Longrightarrow>
   plan env r =
     (''tailwind.config.js'', Text (tailwindConfig r)) #
     (''app.json'',
        Json (projr (set_scheme (projr (read_json ''app.json'' (app_json env)))
                       (scheme (appName r))))) #
     written (steps_5_to_17 r) @
     [(''package.json'',
        Json (projr (set_main (projr (read_json ''package.json'' (package_json env))))))]"
  unfolding completes_iff
  by (auto simp add: plan_def generate_def Let_def written_append path_join_def
      split: sum.splits)

lemma content_in_tree:
  "completes env r \<Longrightarrow> p \<notin> {''tailwind.config.js'', ''app.json'', ''package.json''} \<Longrightarrow>
   file_content (plan env r) p = file_content (written (steps_5_to_17 r)) p"
  by (simp add: plan_unfold file_content_def map_add_def split: option.splits)

lemma button_content:
  "completes env r \<Longrightarrow>
   file_content (plan env r) ''components/ui/Button.tsx'' = Some (Text buttonComponent)"
  by (simp add: content_in_tree) (simp add: file_content_def written_5_to_17)

lemma login_content:
  "completes env r \<Longrightarrow> needsAuth r \<Longrightarrow>
   file_content (plan env r) ''app/login.tsx'' = Some (Text loginPage) \<and>
   file_content (plan env r) ''app/signup.tsx'' = Some (Text signupPage)"
  by (simp add: content_in_tree) (simp add: file_content_def written_5_to_17)

lemma layout_content:
  "completes env r \<Longrightarrow>
   file_content (plan env r) ''app/_layout.tsx'' = Some (Text (mainLayout r))"
  by (simp add: content_in_tree) (simp add: file_content_def written_5_to_17)

lemma index_content:
  "completes env r \<Longrightarrow> \<not> truthy (needsBottomTabs r) \<Longrightarrow>
   file_content (plan env r) ''app/index.tsx'' = Some (Text (simpleHomeScreen r))"
  by (simp add: content_in_tree) (simp add: file_content_def written_5_to_17)

lemma no_tab_files:
  "completes env r \<Longrightarrow> \<not> truthy (needsBottomTabs r) \<Longrightarrow> filter tab_file (plan_paths env r) = []"
  by (simp add: completes_paths paths_5_to_17 tab_file_def)

lemma tab_files:
  "completes env r \<Longrightarrow> truthy (needsBottomTabs r) \<Longrightarrow>
   filter tab_file (plan_paths env r) =
     [''app/(tabs)/_layout.tsx'', ''app/(tabs)/index.tsx'', ''app/(tabs)/explore.tsx'',
      ''app/(tabs)/notifications.tsx'', ''app/(tabs)/profile.tsx'']"
  by (simp add: completes_paths paths_5_to_17 tab_file_def)

lemma signup_in_paths:
  "completes env r \<Longrightarrow> ''app/signup.tsx'' \<in> set (plan_paths env r) \<longleftrightarrow> needsAuth r"
  by (simp add: completes_paths paths_5_to_17)

lemma fresh_scaffold_completes: "completes fresh_scaffold r"
  by (rule scaffolded_completes) (simp add: fresh_scaffold_def)

subsection \<open>Names and schemes\<close>

lemma name_class_alphabet: "name_class c \<longleftrightarrow> c \<in> set spec_name_alphabet"
  by (cases c) (simp add: name_class_def in_range_def spec_name_alphabet_def; blast)

lemma toLowerCase_char_spec: "toLowerCase_char c = spec_lowercase_char c"
  by (cases c)
    (simp add: toLowerCase_char_def spec_lowercase_char_def in_range_def char_of_eq_iff; blast)

lemma kept_after_lowercase:
  "(in_range CHR ''a'' CHR ''z'' (toLowerCase_char c) \<or> in_range CHR ''0'' CHR ''9'' (toLowerCase_char c))
   \<longleftrightarrow> spec_alphanumeric (toLowerCase_char c)"
  by (cases c)
    (simp add: toLowerCase_char_def spec_alphanumeric_def in_range_def char_of_eq_iff; blast)

lemma scheme_spec: "scheme name = spec_scheme name"
  by (induction name)
    (simp_all add: scheme_def spec_scheme_def toLowerCase_def kept_after_lowercase
      toLowerCase_char_spec [symmetric])

lemma includes_char: "str_includes v [c] \<longleftrightarrow> c \<in> set v"
  by (induction v) auto

lemma validate_Valid: "validate v = Valid \<longleftrightarrow> matches_name_pattern v"
proof -
  have "list_all name_class v \<Longrightarrow> \<not> str_includes v '' ''"
    by (auto simp add: includes_char list_all_iff name_class_def in_range_def)
  then show ?thesis
    by (auto simp add: validate_def name_regex_test_def matches_name_pattern_def
        name_class_alphabet list_all_iff)
qed

lemma prompts_valid: "prompts s = Some r \<Longrightarrow> validate (appName r) = Valid"
  by (auto simp add: prompts_def find_Some_iff split: option.splits)

subsection \<open>The manifests after a run\<close>

lemma assign_key_same: "map_of (assign_key k v kvs) k = Some v"
  by (induction kvs) auto

lemma assign_key_other: "k' \<noteq> k \<Longrightarrow> map_of (assign_key k v kvs) k' = map_of kvs k'"
  by (induction kvs) auto

lemma scaffolded_manifests:
  assumes "scaffolded env"
  obtains kvs es ps where
    "app_json env = Parses (JObj kvs)" "map_of kvs ''expo'' = Some (JObj es)"
    "package_json env = Parses (JObj ps)"
  using assms by (auto split: manifest.splits json.splits option.splits)

lemma manifests_written:
  assumes "scaffolded env"
  shows "written_json (plan env r) ''app.json'' [''expo'', ''scheme''] =
           Some (JStr (scheme (appName r)))"
    and "written_json (plan env r) ''package.json'' [''main''] = Some (JStr ''./app/_layout.tsx'')"
proof -
  from assms obtain kvs es ps where
    m: "app_json env = Parses (JObj kvs)" "map_of kvs ''expo'' = Some (JObj es)"
       "package_json env = Parses (JObj ps)"
    by (rule scaffolded_manifests)
  have c: "completes env r" using assms by (rule scaffolded_completes)
  show "written_json (plan env r) ''app.json'' [''expo'', ''scheme''] =
          Some (JStr (scheme (appName r)))"
    by (simp add: written_json_def file_content_def plan_unfold [OF c] written_5_to_17 m
        assign_key_same)
  show "written_json (plan env r) ''package.json'' [''main''] = Some (JStr ''./app/_layout.tsx'')"
    by (simp add: written_json_def file_content_def plan_unfold [OF c] written_5_to_17 m
        assign_key_same)
qed

subsection \<open>The switches\<close>

lemma index_once:
  "completes env r \<Longrightarrow> \<not> truthy (needsBottomTabs r) \<Longrightarrow>
   filter (\<lambda>p. p = ''app/index.tsx'') (plan_paths env r) = [''app/index.tsx'']"
  by (simp add: completes_paths paths_5_to_17)

lemma prompts_tabs:
  "prompts s = Some r \<Longrightarrow>
   needsAuth r = needsAuth_answer s \<and>
   needsBottomTabs r = (if needsAuth_answer s then Some (needsBottomTabs_answer s) else None)"
  by (auto simp add: prompts_def needsBottomTabs_type_def split: option.splits)

subsection \<open>The text of the templates\<close>

lemma buttonComponent_colors_lines:
  \<open>filter (\<lambda>l. str_includes l ''colors'') (split_lines buttonComponent) =
   [''        <ActivityIndicator color={variant === "outline" || variant === "ghost" ? colors.primary : colors.surface} />'']\<close>
  unfolding buttonComponent_def by (subst split_lines_template) simp_all

lemma buttonComponent_spinner:
  \<open>sublist
     [''      {loading ? ('',
      ''        <ActivityIndicator color={variant === "outline" || variant === "ghost" ? colors.primary : colors.surface} />'',
      ''      ) : ('']
     (split_lines buttonComponent)\<close>
  unfolding buttonComponent_def by (subst split_lines_template) (simp_all add: sublist_Cons_right)

lemma buttonComponent_includes:
  \<open>str_includes buttonComponent ''colors.primary''\<close>
  \<open>str_includes buttonComponent ''colors.surface''\<close>
  unfolding buttonComponent_def by (simp_all add: includes_template)

lemma loginPage_router_lines:
  \<open>filter (\<lambda>l. str_includes l ''router.'') (split_lines loginPage) =
     [''    router.replace("/(tabs)");'']\<close>
  unfolding loginPage_def by (subst split_lines_template) simp_all

lemma loginPage_onSubmit:
  \<open>sublist
     [''  const onSubmit = (data: LoginForm) => {'',
      ''    console.log("Login data:", data);'',
      ''    // TODO: Implement authentication logic'',
      ''    router.replace("/(tabs)");'',
      ''  };'']
     (split_lines loginPage)\<close>
  unfolding loginPage_def by (subst split_lines_template) (simp_all add: sublist_Cons_right)

lemma loginPage_onPress:
  \<open>filter (\<lambda>l. str_includes l ''onSubmit'') (split_lines loginPage) =
     [''  const onSubmit = (data: LoginForm) => {'', ''          onPress={handleSubmit(onSubmit)}'']\<close>
  unfolding loginPage_def by (subst split_lines_template) simp_all

lemma signupPage_router_lines:
  \<open>filter (\<lambda>l. str_includes l ''router.'') (split_lines signupPage) =
     [''    router.replace("/(tabs)");'']\<close>
  unfolding signupPage_def by (subst split_lines_template) simp_all

lemma signupPage_onSubmit:
  \<open>sublist
     [''  const onSubmit = (data: SignupForm) => {'',
      ''    console.log("Signup data:", data);'',
      ''    // TODO: Implement registration logic'',
      ''    router.replace("/(tabs)");'',
      ''  };'']
     (split_lines signupPage)\<close>
  unfolding signupPage_def by (subst split_lines_template) (simp_all add: sublist_Cons_right)

lemma signupPage_onPress:
  \<open>filter (\<lambda>l. str_includes l ''onSubmit'') (split_lines signupPage) =
     [''  const onSubmit = (data: SignupForm) => {'', ''          onPress={handleSubmit(onSubmit)}'']\<close>
  unfolding signupPage_def by (subst split_lines_template) simp_all

lemma mainLayout_auth_without_tabs:
  \<open>str_includes (mainLayout (demo True (Some False))) ''<Stack.Screen name="login" />''\<close>
  \<open>str_includes (mainLayout (demo True (Some False))) ''<Stack.Screen name="signup" />''\<close>
  \<open>str_includes (mainLayout (demo True (Some False)))
     ''<Stack.Screen name="(tabs)" options={{ headerShown: false }} />''\<close>
  \<open>\<not> str_includes (mainLayout (demo True (Some False))) ''index''\<close>
  unfolding mainLayout_def stackScreens_def
  by (simp_all add: demo_def includes_template append_template toLowerCase_def
      toLowerCase_char_def in_range_def char_of_eq_iff)

section \<open>The claims\<close>

text \<open>
  Claim C1. For every response the questions can resolve to with \<^verbatim>\<open>needsAuth\<close>
  false, whatever the session would have answered to the question on tabs, a completed
  run writes app/index.tsx once, with the text of the home screen without tabs, and
  writes no login file, no signup file and no file of the tab route group.
\<close>

theorem plan_without_auth:
  "prompts s = Some r \<and> \<not> needsAuth r \<and> completes env r \<longrightarrow>
     filter (\<lambda>p. p = ''app/index.tsx'') (plan_paths env r) = [''app/index.tsx''] \<and>
     file_content (plan env r) ''app/index.tsx'' = Some (Text (simpleHomeScreen r)) \<and>
     ''app/login.tsx'' \<notin> set (plan_paths env r) \<and>
     ''app/signup.tsx'' \<notin> set (plan_paths env r) \<and>
     filter tab_file (plan_paths env r) = []"
proof (intro impI)
  assume a: "prompts s = Some r \<and> \<not> needsAuth r \<and> completes env r"
  then have "needsBottomTabs r = None"
    using prompts_tabs [of s r] by simp
  then have t: "\<not> truthy (needsBottomTabs r)" by simp
  from a have c: "completes env r" and n: "\<not> needsAuth r" by simp_all
  show "filter (\<lambda>p. p = ''app/index.tsx'') (plan_paths env r) = [''app/index.tsx''] \<and>
     file_content (plan env r) ''app/index.tsx'' = Some (Text (simpleHomeScreen r)) \<and>
     ''app/login.tsx'' \<notin> set (plan_paths env r) \<and>
     ''app/signup.tsx'' \<notin> set (plan_paths env r) \<and>
     filter tab_file (plan_paths env r) = []"
    using n index_once [OF c t] index_content [OF c t] no_tab_files [OF c t]
      login_in_paths [OF c] signup_in_paths [OF c]
    by simp
qed

text \<open>
  The theorem at a session that declines authentication, with either answer held ready
  for the question on tabs.
\<close>

theorem plan_without_auth_witness:
  "prompts session_without_auth = Some (demo False None\<lparr>primaryColor := ''#000000''\<rparr>) \<and>
   needsBottomTabs_answer session_without_auth \<and>
   prompts (session_without_auth\<lparr>needsBottomTabs_answer := False\<rparr>) =
     Some (demo False None\<lparr>primaryColor := ''#000000''\<rparr>) \<and>
   \<not> needsAuth (demo False None\<lparr>primaryColor := ''#000000''\<rparr>) \<and>
   completes fresh_scaffold (demo False None\<lparr>primaryColor := ''#000000''\<rparr>) \<and>
   filter (\<lambda>p. p = ''app/index.tsx'')
     (plan_paths fresh_scaffold (demo False None\<lparr>primaryColor := ''#000000''\<rparr>)) =
     [''app/index.tsx''] \<and>
   file_content (plan fresh_scaffold (demo False None\<lparr>primaryColor := ''#000000''\<rparr>))
     ''app/index.tsx'' =
     Some (Text (simpleHomeScreen (demo False None\<lparr>primaryColor := ''#000000''\<rparr>))) \<and>
   ''app/login.tsx'' \<notin>
     set (plan_paths fresh_scaffold (demo False None\<lparr>primaryColor := ''#000000''\<rparr>)) \<and>
   ''app/signup.tsx'' \<notin>
     set (plan_paths fresh_scaffold (demo False None\<lparr>primaryColor := ''#000000''\<rparr>)) \<and>
   filter tab_file
     (plan_paths fresh_scaffold (demo False None\<lparr>primaryColor := ''#000000''\<rparr>)) = []"
proof -
  have p: "prompts session_without_auth = Some (demo False None\<lparr>primaryColor := ''#000000''\<rparr>)"
    by (simp add: prompts_def session_without_auth_def demo_def validate_def name_regex_test_def
        name_class_def in_range_def needsBottomTabs_type_def)
  have q: "prompts (session_without_auth\<lparr>needsBottomTabs_answer := False\<rparr>) =
      Some (demo False None\<lparr>primaryColor := ''#000000''\<rparr>)"
    by (simp add: prompts_def session_without_auth_def demo_def validate_def name_regex_test_def
        name_class_def in_range_def needsBottomTabs_type_def)
  have b: "needsBottomTabs_answer session_without_auth" by (simp add: session_without_auth_def)
  have n: "\<not> needsAuth (demo False None\<lparr>primaryColor := ''#000000''\<rparr>)"
    by (simp add: demo_def)
  have c: "completes fresh_scaffold (demo False None\<lparr>primaryColor := ''#000000''\<rparr>)"
    by (rule fresh_scaffold_completes)
  show ?thesis
    using plan_without_auth [of session_without_auth
        "demo False None\<lparr>primaryColor := ''#000000''\<rparr>" fresh_scaffold] p q b n c
    by simp
qed

text \<open>
  Claim C2, at the response with authentication and without tabs. The run writes the
  login page, the signup page and app/index.tsx, and no file of the tab route group. The
  root layout it writes names the screens \<^verbatim>\<open>login\<close>, \<^verbatim>\<open>signup\<close> and
  \<^verbatim>\<open>(tabs)\<close>; the word \<^verbatim>\<open>index\<close> does not occur in it. So the layout names the
  tab route group, which the run did not write, and not the entry screen it wrote.
\<close>

theorem layout_of_auth_without_tabs:
  \<open>completes fresh_scaffold (demo True (Some False)) \<and>
   ''app/login.tsx'' \<in> set (plan_paths fresh_scaffold (demo True (Some False))) \<and>
   ''app/signup.tsx'' \<in> set (plan_paths fresh_scaffold (demo True (Some False))) \<and>
   ''app/index.tsx'' \<in> set (plan_paths fresh_scaffold (demo True (Some False))) \<and>
   filter tab_file (plan_paths fresh_scaffold (demo True (Some False))) = [] \<and>
   file_content (plan fresh_scaffold (demo True (Some False))) ''app/_layout.tsx'' =
     Some (Text (mainLayout (demo True (Some False)))) \<and>
   str_includes (mainLayout (demo True (Some False))) ''<Stack.Screen name="login" />'' \<and>
   str_includes (mainLayout (demo True (Some False))) ''<Stack.Screen name="signup" />'' \<and>
   str_includes (mainLayout (demo True (Some False)))
     ''<Stack.Screen name="(tabs)" options={{ headerShown: false }} />'' \<and>
   \<not> str_includes (mainLayout (demo True (Some False))) ''index''\<close>
proof -
  have c: "completes fresh_scaffold (demo True (Some False))"
    by (rule fresh_scaffold_completes)
  have a: "needsAuth (demo True (Some False))" and t: "\<not> truthy (needsBottomTabs (demo True (Some False)))"
    by (simp_all add: demo_def)
  show ?thesis
    using c a t login_in_paths [OF c] signup_in_paths [OF c] index_in_paths [OF c]
      no_tab_files [OF c t] layout_content [OF c] mainLayout_auth_without_tabs
    by simp
qed

text \<open>
  Claim C3, as amended. When the answer to the authentication question is no, the last
  question is skipped and \<^verbatim>\<open>needsBottomTabs\<close> of the response is undefined, which
  every test of the run reads as false: step 11 writes the home screen without tabs and
  the root layout names the screen \<^verbatim>\<open>index\<close>.
\<close>

theorem tabs_answer_without_auth:
  \<open>prompts s = Some r \<and> \<not> needsAuth_answer s \<longrightarrow>
     \<not> needsAuth r \<and> needsBottomTabs r = None \<and> \<not> truthy (needsBottomTabs r) \<and>
     step_11 r = [WriteFile ''app/index.tsx'' (Text (simpleHomeScreen r))] \<and>
     stackScreens r = template ['''', ''      <Stack.Screen name="index" />'', ''      '']\<close>
proof (intro impI)
  assume a: "prompts s = Some r \<and> \<not> needsAuth_answer s"
  then have "\<not> needsAuth r" "needsBottomTabs r = None"
    using prompts_tabs [of s r] by simp_all
  then show \<open>\<not> needsAuth r \<and> needsBottomTabs r = None \<and> \<not> truthy (needsBottomTabs r) \<and>
     step_11 r = [WriteFile ''app/index.tsx'' (Text (simpleHomeScreen r))] \<and>
     stackScreens r = template ['''', ''      <Stack.Screen name="index" />'', ''      '']\<close>
    by (simp add: step_11_def stackScreens_def path_join_def)
qed

text \<open>The theorem at a session whose first name is rejected and that declines authentication.\<close>

theorem tabs_answer_without_auth_witness:
  \<open>map_option appName (prompts session_without_auth) = Some ''demo'' \<and>
   \<not> needsAuth_answer session_without_auth \<and>
   map_option needsBottomTabs (prompts session_without_auth) = Some None \<and>
   map_option step_11 (prompts session_without_auth) =
     Some [WriteFile ''app/index.tsx'' (Text (simpleHomeScreen (demo False None\<lparr>primaryColor := ''#000000''\<rparr>)))]\<close>
proof -
  have p: "prompts session_without_auth = Some (demo False None\<lparr>primaryColor := ''#000000''\<rparr>)"
    by (simp add: prompts_def session_without_auth_def demo_def validate_def name_regex_test_def
        name_class_def in_range_def needsBottomTabs_type_def)
  have n: "\<not> needsAuth_answer session_without_auth" by (simp add: session_without_auth_def)
  show ?thesis
    using tabs_answer_without_auth [of session_without_auth "demo False None\<lparr>primaryColor := ''#000000''\<rparr>"] p n
    by (simp add: demo_def)
qed

text \<open>
  The claim as first stated, that the field is then true, fails at that session: the
  field is undefined and reads as false.
\<close>

theorem tabs_answer_without_auth_counterexample:
  "\<not> needsAuth_answer session_without_auth \<and>
   map_option needsBottomTabs (prompts session_without_auth) = Some None \<and>
   map_option needsBottomTabs (prompts session_without_auth) \<noteq> Some (Some True) \<and>
   map_option (\<lambda>r. truthy (needsBottomTabs r)) (prompts session_without_auth) = Some False"
  by (simp add: prompts_def session_without_auth_def validate_def name_regex_test_def
      name_class_def in_range_def needsBottomTabs_type_def)

text \<open>
  Claim C4. The paths a run writes depend on the response only through
  \<^verbatim>\<open>needsAuth\<close> and the truth of \<^verbatim>\<open>needsBottomTabs\<close>: two responses that agree on
  both give the same paths in the same environment, whatever their app name, font and
  colours. For runs that complete the converse holds too: responses that differ in one
  of the two give different sets of paths, so the four combinations give four sets.
\<close>

theorem paths_by_switches:
  "(needsAuth r1 = needsAuth r2 \<and> truthy (needsBottomTabs r1) = truthy (needsBottomTabs r2) \<longrightarrow>
      plan_paths env r1 = plan_paths env r2) \<and>
   (completes env r1 \<and> completes env r2 \<longrightarrow>
      (set (plan_paths env r1) = set (plan_paths env r2) \<longleftrightarrow>
       needsAuth r1 = needsAuth r2 \<and>
       truthy (needsBottomTabs r1) = truthy (needsBottomTabs r2)))"
proof (intro conjI impI)
  assume "needsAuth r1 = needsAuth r2 \<and> truthy (needsBottomTabs r1) = truthy (needsBottomTabs r2)"
  then show "plan_paths env r1 = plan_paths env r2" by (intro plan_paths_flags) simp_all
next
  assume c: "completes env r1 \<and> completes env r2"
  show "set (plan_paths env r1) = set (plan_paths env r2) \<longleftrightarrow>
        needsAuth r1 = needsAuth r2 \<and> truthy (needsBottomTabs r1) = truthy (needsBottomTabs r2)"
  proof
    assume e: "set (plan_paths env r1) = set (plan_paths env r2)"
    have "needsAuth r1 = needsAuth r2"
      using c e login_in_paths [of env r1] login_in_paths [of env r2] by simp
    moreover have "truthy (needsBottomTabs r1) = truthy (needsBottomTabs r2)"
      using c e index_in_paths [of env r1] index_in_paths [of env r2] by simp
    ultimately show "needsAuth r1 = needsAuth r2 \<and>
        truthy (needsBottomTabs r1) = truthy (needsBottomTabs r2)" by simp
  next
    assume "needsAuth r1 = needsAuth r2 \<and>
        truthy (needsBottomTabs r1) = truthy (needsBottomTabs r2)"
    then have "plan_paths env r1 = plan_paths env r2" by (intro plan_paths_flags) simp_all
    then show "set (plan_paths env r1) = set (plan_paths env r2)" by simp
  qed
qed

text \<open>The theorem on the four combinations, with every other field changed.\<close>

theorem paths_by_switches_witness:
  "plan_paths fresh_scaffold (demo True (Some False)) = plan_paths fresh_scaffold (other True None) \<and>
   set (plan_paths fresh_scaffold (demo False (Some False))) \<noteq>
     set (plan_paths fresh_scaffold (other False (Some True))) \<and>
   set (plan_paths fresh_scaffold (demo False (Some False))) \<noteq>
     set (plan_paths fresh_scaffold (other True (Some False))) \<and>
   set (plan_paths fresh_scaffold (demo False (Some False))) \<noteq>
     set (plan_paths fresh_scaffold (other True (Some True))) \<and>
   set (plan_paths fresh_scaffold (demo False (Some True))) \<noteq>
     set (plan_paths fresh_scaffold (other True (Some False))) \<and>
   set (plan_paths fresh_scaffold (demo False (Some True))) \<noteq>
     set (plan_paths fresh_scaffold (other True (Some True))) \<and>
   set (plan_paths fresh_scaffold (demo True (Some False))) \<noteq>
     set (plan_paths fresh_scaffold (other True (Some True)))"
  using
    paths_by_switches [of "demo True (Some False)" "other True None" fresh_scaffold]
    paths_by_switches [of "demo False (Some False)" "other False (Some True)" fresh_scaffold]
    paths_by_switches [of "demo False (Some False)" "other True (Some False)" fresh_scaffold]
    paths_by_switches [of "demo False (Some False)" "other True (Some True)" fresh_scaffold]
    paths_by_switches [of "demo False (Some True)" "other True (Some False)" fresh_scaffold]
    paths_by_switches [of "demo False (Some True)" "other True (Some True)" fresh_scaffold]
    paths_by_switches [of "demo True (Some False)" "other True (Some True)" fresh_scaffold]
  by (simp add: fresh_scaffold_completes demo_def other_def)

text \<open>
  Claim C5. The colour table takes \<^verbatim>\<open>primary\<close> and \<^verbatim>\<open>secondary\<close> from the response
  exactly when the strings given are not empty, and the defaults \<^verbatim>\<open>#3B82F6\<close> and
  \<^verbatim>\<open>#6B7280\<close> otherwise; each of the other eight slots is its fixed default for
  every response.
\<close>

theorem theme_colors_resolved:
  "primary (colors r) = (if primaryColor r = [] then ''#3B82F6'' else primaryColor r) \<and>
   secondary (colors r) = (if secondaryColor r = [] then ''#6B7280'' else secondaryColor r) \<and>
   success (colors r) = ''#10B981'' \<and>
   warning (colors r) = ''#F59E0B'' \<and>
   error (colors r) = ''#EF4444'' \<and>
   background (colors r) = ''#F9FAFB'' \<and>
   surface (colors r) = ''#FFFFFF'' \<and>
   text_color (colors r) = ''#111827'' \<and>
   textSecondary (colors r) = ''#6B7280'' \<and>
   border (colors r) = ''#E5E7EB''"
  by (simp add: colors_def js_or_def)

text \<open>
  Claim C6. Validation accepts a name if and only if it matches the name pattern. A
  matching name submitted first becomes the app name of the response unchanged. A name
  that does not match is answered with a message, is the app name of no response, and
  a session that submits only that name runs nothing, so no file is planned for it.
\<close>

theorem app_name_validation:
  "(validate v = Valid \<longleftrightarrow> matches_name_pattern v) \<and>
   (matches_name_pattern v \<longrightarrow>
      map_option appName (prompts (s\<lparr>appName_values := v # vs\<rparr>)) = Some v) \<and>
   (\<not> matches_name_pattern v \<longrightarrow>
      (\<exists>m. validate v = Message m) \<and>
      (\<forall>s' r. prompts s' = Some r \<longrightarrow> appName r \<noteq> v) \<and>
      run env (s\<lparr>appName_values := [v]\<rparr>) = None)"
proof (intro conjI impI)
  show "validate v = Valid \<longleftrightarrow> matches_name_pattern v" by (rule validate_Valid)
next
  assume "matches_name_pattern v"
  then have "validate v = Valid" by (simp add: validate_Valid)
  then show "map_option appName (prompts (s\<lparr>appName_values := v # vs\<rparr>)) = Some v"
    by (simp add: prompts_def)
next
  assume n: "\<not> matches_name_pattern v"
  then have nv: "validate v \<noteq> Valid" by (simp add: validate_Valid)
  then show "\<exists>m. validate v = Message m" by (cases "validate v") auto
  show "\<forall>s' r. prompts s' = Some r \<longrightarrow> appName r \<noteq> v"
    using nv prompts_valid by blast
  show "run env (s\<lparr>appName_values := [v]\<rparr>) = None"
    using nv by (simp add: run_def prompts_def)
qed

text \<open>The theorem at an accepted name and at a name with a space.\<close>

theorem app_name_validation_witness:
  "validate ''my-expo-app'' = Valid \<and> matches_name_pattern ''my-expo-app'' \<and>
   map_option appName (prompts (session_without_auth\<lparr>appName_values := [''my-expo-app'', ''x'']\<rparr>)) =
     Some ''my-expo-app'' \<and>
   \<not> matches_name_pattern ''my app'' \<and>
   validate ''my app'' =
     Message ''App name cannot contain spaces. Use hyphens or underscores instead.'' \<and>
   \<not> matches_name_pattern ''caf%'' \<and>
   validate ''caf%'' =
     Message ''App name can only contain letters, numbers, hyphens, and underscores.'' \<and>
   run fresh_scaffold (session_without_auth\<lparr>appName_values := [''my app'']\<rparr>) = None"
proof -
  have a: "matches_name_pattern ''my-expo-app''"
    by (simp add: matches_name_pattern_def spec_name_alphabet_def)
  have b: "\<not> matches_name_pattern ''my app''"
    by (simp add: matches_name_pattern_def spec_name_alphabet_def)
  have c: "\<not> matches_name_pattern ''caf%''"
    by (simp add: matches_name_pattern_def spec_name_alphabet_def)
  have d: "validate ''my app'' =
     Message ''App name cannot contain spaces. Use hyphens or underscores instead.''"
    by (simp add: validate_def)
  have e: "validate ''caf%'' =
     Message ''App name can only contain letters, numbers, hyphens, and underscores.''"
    by (simp add: validate_def name_regex_test_def name_class_def in_range_def)
  show ?thesis
    using
      app_name_validation [where v = "''my-expo-app''" and s = session_without_auth
        and vs = "[''x'']" and env = fresh_scaffold]
      app_name_validation [where v = "''my app''" and s = session_without_auth
        and vs = "[]" and env = fresh_scaffold]
      a b c d e
    by simp
qed

text \<open>
  Claim C7. For every valid app name, a run on a scaffolded project leaves app.json with
  \<^verbatim>\<open>expo.scheme\<close> equal to the name lowercased with every character that is not a
  letter or a digit removed, and package.json with \<^verbatim>\<open>main\<close> equal to
  \<^verbatim>\<open>./app/_layout.tsx\<close>.
\<close>

theorem manifest_edits:
  assumes "validate (appName r) = Valid" and "scaffolded env"
  shows "written_json (plan env r) ''app.json'' [''expo'', ''scheme''] =
           Some (JStr (spec_scheme (appName r))) \<and>
         written_json (plan env r) ''package.json'' [''main''] =
           Some (JStr ''./app/_layout.tsx'')"
  using manifests_written [OF assms(2), of r] by (simp add: scheme_spec)

text \<open>The theorem at a name with capitals, a hyphen and an underscore.\<close>

theorem manifest_edits_witness:
  "validate (appName (other True (Some True))) = Valid \<and> scaffolded fresh_scaffold \<and>
   written_json (plan fresh_scaffold (other True (Some True))) ''app.json'' [''expo'', ''scheme''] =
     Some (JStr ''myshop2'') \<and>
   written_json (plan fresh_scaffold (other True (Some True))) ''package.json'' [''main''] =
     Some (JStr ''./app/_layout.tsx'')"
proof -
  have v: "validate (appName (other True (Some True))) = Valid"
    by (simp add: other_def validate_def name_regex_test_def name_class_def in_range_def)
  have s: "scaffolded fresh_scaffold" by (simp add: fresh_scaffold_def)
  have "spec_scheme (appName (other True (Some True))) = ''myshop2''"
    by (simp add: other_def spec_scheme_def spec_lowercase_char_def spec_alphanumeric_def)
  with manifest_edits [OF v s] v s show ?thesis by simp
qed

text \<open>
  Claim C8. Whenever \<^verbatim>\<open>needsAuth\<close> is true a completed run writes the login page and
  the signup page, two fixed texts. In each the handler \<^verbatim>\<open>onSubmit\<close>, which the button
  of the form calls through \<^verbatim>\<open>handleSubmit\<close>, ends with
  \<^verbatim>\<open>router.replace("/(tabs)")\<close>, the only use of the router in the page. This holds
  also when \<^verbatim>\<open>needsBottomTabs\<close> is false or undefined, where the run writes no file of
  the tab route group.
\<close>

theorem auth_pages_replace_to_tabs:
  \<open>(completes env r \<and> needsAuth r \<longrightarrow>
      file_content (plan env r) ''app/login.tsx'' = Some (Text loginPage) \<and>
      file_content (plan env r) ''app/signup.tsx'' = Some (Text signupPage) \<and>
      (\<not> truthy (needsBottomTabs r) \<longrightarrow> filter tab_file (plan_paths env r) = [])) \<and>
   sublist
     [''  const onSubmit = (data: LoginForm) => {'',
      ''    console.log("Login data:", data);'',
      ''    // TODO: Implement authentication logic'',
      ''    router.replace("/(tabs)");'',
      ''  };'']
     (split_lines loginPage) \<and>
   filter (\<lambda>l. str_includes l ''router.'') (split_lines loginPage) =
     [''    router.replace("/(tabs)");''] \<and>
   filter (\<lambda>l. str_includes l ''onSubmit'') (split_lines loginPage) =
     [''  const onSubmit = (data: LoginForm) => {'', ''          onPress={handleSubmit(onSubmit)}''] \<and>
   sublist
     [''  const onSubmit = (data: SignupForm) => {'',
      ''    console.log("Signup data:", data);'',
      ''    // TODO: Implement registration logic'',
      ''    router.replace("/(tabs)");'',
      ''  };'']
     (split_lines signupPage) \<and>
   filter (\<lambda>l. str_includes l ''router.'') (split_lines signupPage) =
     [''    router.replace("/(tabs)");''] \<and>
   filter (\<lambda>l. str_includes l ''onSubmit'') (split_lines signupPage) =
     [''  const onSubmit = (data: SignupForm) => {'', ''          onPress={handleSubmit(onSubmit)}'']\<close>
  by (simp add: login_content no_tab_files loginPage_onSubmit loginPage_router_lines
      loginPage_onPress signupPage_onSubmit signupPage_router_lines signupPage_onPress)

text \<open>The theorem at authentication without tabs.\<close>

theorem auth_pages_replace_to_tabs_witness:
  "completes fresh_scaffold (demo True (Some False)) \<and> needsAuth (demo True (Some False)) \<and>
   \<not> truthy (needsBottomTabs (demo True (Some False))) \<and>
   file_content (plan fresh_scaffold (demo True (Some False))) ''app/login.tsx'' =
     Some (Text loginPage) \<and>
   file_content (plan fresh_scaffold (demo True (Some False))) ''app/signup.tsx'' =
     Some (Text signupPage) \<and>
   filter tab_file (plan_paths fresh_scaffold (demo True (Some False))) = []"
  using auth_pages_replace_to_tabs [of fresh_scaffold "demo True (Some False)"]
  by (simp add: fresh_scaffold_completes) (simp add: demo_def)

text \<open>
  Claim C9. In every completed run components/ui/Button.tsx holds one fixed text, which
  no field of the response enters. That text names \<^verbatim>\<open>colors.primary\<close> and
  \<^verbatim>\<open>colors.surface\<close> in the spinner branch of the button, and the line that does so
  is its only line in which \<^verbatim>\<open>colors\<close> occurs: the file neither imports nor
  defines such a binding.
\<close>

theorem button_colors_unbound:
  \<open>(completes env r \<longrightarrow>
      file_content (plan env r) ''components/ui/Button.tsx'' = Some (Text buttonComponent)) \<and>
   str_includes buttonComponent ''colors.primary'' \<and>
   str_includes buttonComponent ''colors.surface'' \<and>
   sublist
     [''      {loading ? ('',
      ''        <ActivityIndicator color={variant === "outline" || variant === "ghost" ? colors.primary : colors.surface} />'',
      ''      ) : ('']
     (split_lines buttonComponent) \<and>
   filter (\<lambda>l. str_includes l ''colors'') (split_lines buttonComponent) =
     [''        <ActivityIndicator color={variant === "outline" || variant === "ghost" ? colors.primary : colors.surface} />'']\<close>
  by (simp add: button_content buttonComponent_includes buttonComponent_spinner
      buttonComponent_colors_lines)

text \<open>The theorem at two responses with different colours: the same text both times.\<close>

theorem button_colors_unbound_witness:
  "completes fresh_scaffold (other True (Some True)) \<and>
   primary (colors (other True (Some True))) = ''#000000'' \<and>
   primary (colors (demo False None)) = ''#3B82F6'' \<and>
   file_content (plan fresh_scaffold (other True (Some True))) ''components/ui/Button.tsx'' =
     Some (Text buttonComponent) \<and>
   file_content (plan fresh_scaffold (demo False None)) ''components/ui/Button.tsx'' =
     Some (Text buttonComponent)"
  using button_colors_unbound [of fresh_scaffold "other True (Some True)"]
    button_colors_unbound [of fresh_scaffold "demo False None"]
  by (simp add: fresh_scaffold_completes) (simp add: colors_def js_or_def other_def demo_def)

text \<open>
  Claim C10. The name \<^verbatim>\<open>_-_\<close> passes validation and matches the name pattern, yet
  its scheme is the empty string, and a run on it writes that empty scheme to app.json:
  a valid app name does not give a non-empty scheme.
\<close>

theorem valid_name_with_empty_scheme:
  "validate ''_-_'' = Valid \<and> matches_name_pattern ''_-_'' \<and> scheme ''_-_'' = [] \<and>
   written_json (plan fresh_scaffold (demo False None\<lparr>appName := ''_-_''\<rparr>)) ''app.json''
     [''expo'', ''scheme''] = Some (JStr [])"
proof -
  have "scaffolded fresh_scaffold" by (simp add: fresh_scaffold_def)
  then have "written_json (plan fresh_scaffold (demo False None\<lparr>appName := ''_-_''\<rparr>)) ''app.json''
     [''expo'', ''scheme''] = Some (JStr (scheme ''_-_''))"
    using manifests_written(1) [of fresh_scaffold "demo False None\<lparr>appName := ''_-_''\<rparr>"]
    by (simp add: demo_def)
  moreover have "scheme ''_-_'' = []"
    by (simp add: scheme_def toLowerCase_def toLowerCase_char_def in_range_def)
  moreover have "validate ''_-_'' = Valid"
    by (simp add: validate_def name_regex_test_def name_class_def in_range_def)
  moreover have "matches_name_pattern ''_-_''"
    by (simp add: matches_name_pattern_def spec_name_alphabet_def)
  ultimately show ?thesis by simp
qed

end
